theory Spec2Isabelle
  imports Complex_Main "HOL-Library.AList"
begin

section \<open>Values, exceptions and the terminal\<close>

text \<open>
  The program is one Python class, \<open>FitnessTracker\<close>, over an SQLite file. Python floats and
  SQLite \<open>REAL\<close>/\<open>INTEGER\<close> columns holding them are idealised as \<^typ>\<open>real\<close> (no rounding,
  no \<open>inf\<close>/\<open>nan\<close>); \<open>NULL\<close> and Python's \<open>None\<close> are \<^term>\<open>None\<close>. Printing is not
  modelled; reading the terminal is.
\<close>

datatype py_error =
    KeyboardInterrupt
  | EOFError
  | ValueError
  | TypeError
  | UnboundLocalError
  | ZeroDivisionError
  | OperationalError

text \<open>
  What the user does at a prompt of \<open>input()\<close>: type a line, or press Ctrl-C. A closed
  terminal (no event left) makes \<open>input()\<close> raise \<open>EOFError\<close>.
\<close>

datatype stdin_event = Line string | CtrlC

text \<open>
  Python's \<open>float(s)\<close> on a string is a library function; it is a parameter of the model:
  \<^term>\<open>None\<close> where \<open>float\<close> raises \<open>ValueError\<close>.
\<close>

type_synonym float_parser = "string \<Rightarrow> real option"

text \<open>\<open>str.lower()\<close> on the ASCII letters.\<close>

definition lower_char :: "char \<Rightarrow> char" where
  "lower_char c =
     (case map_of (zip ''ABCDEFGHIJKLMNOPQRSTUVWXYZ'' ''abcdefghijklmnopqrstuvwxyz'') c of
        Some l \<Rightarrow> l
      | None \<Rightarrow> c)"

definition lower :: "string \<Rightarrow> string" where
  "lower s = map lower_char s"

section \<open>The record store\<close>

text \<open>
  One record per table of \<open>create_tables\<close>, rows in rowid order. A column is an option
  where the program leaves it unset or asks whether it is \<open>NULL\<close>; the other columns hold
  what the program's only writer of that table stores. Timestamps are kept for the
  exercise log only, the one place where recency is spoken of.
\<close>

record user_row =
  u_id :: nat
  u_username :: string
  u_password :: string
  u_age :: real
  u_gender :: string
  u_weight :: real
  u_height :: real
  u_fitness_goal :: string
  u_bmr :: "real option"

record exercise_row =
  e_user_id :: nat
  e_name :: string
  e_reps :: real
  e_weight :: real
  e_duration :: real
  e_distance :: real
  e_timestamp :: nat

record routine_row =
  r_user_id :: nat
  r_routine_name :: string
  r_exercise_name :: string
  r_reps :: real
  r_weight :: real
  r_sets :: nat
  r_duration :: real
  r_distance :: real

record goal_row =
  g_user_id :: nat
  g_daily_calorie_goal :: "real option"
  g_exercise_name :: "string option"
  g_target_reps :: "real option"
  g_target_weight :: "real option"
  g_target_duration :: "real option"
  g_target_distance :: "real option"

record other_exercise_row =
  o_user_id :: "nat option"
  o_name :: string
  o_light_intensity :: real
  o_moderate_intensity :: real
  o_intense_intensity :: real

record store =
  users :: "user_row list"
  exercises :: "exercise_row list"
  routines :: "routine_row list"
  goals :: "goal_row list"
  other_exercises :: "other_exercise_row list"

definition empty_store :: store where
  "empty_store = \<lparr>users = [], exercises = [], routines = [], goals = [], other_exercises = []\<rparr>"

text \<open>
  A connection sees its own uncommitted writes (\<open>pending\<close>); the file holds \<open>disk\<close>.
  \<open>commit\<close> writes the pending state to the file, \<open>rollback\<close> forgets it.
\<close>

record connection =
  disk :: store
  pending :: store

definition connect :: "store \<Rightarrow> connection" where
  "connect db = \<lparr>disk = db, pending = db\<rparr>"

definition commit :: "connection \<Rightarrow> connection" where
  "commit conn = conn\<lparr>disk := pending conn\<rparr>"

definition rollback :: "connection \<Rightarrow> connection" where
  "rollback conn = conn\<lparr>pending := disk conn\<rparr>"

section \<open>Procedures: a connection, a terminal, and exceptions\<close>

text \<open>
  A method body runs on the open connection and the remaining terminal events, and either
  returns a value or raises; both leave a connection state and a remaining terminal behind.
\<close>

type_synonym 'a proc =
  "connection \<times> stdin_event list \<Rightarrow> (py_error + 'a) \<times> connection \<times> stdin_event list"

definition ret :: "'a \<Rightarrow> 'a proc" where
  "ret x = (\<lambda>(conn, script). (Inr x, conn, script))"

definition raise :: "py_error \<Rightarrow> 'a proc" where
  "raise e = (\<lambda>(conn, script). (Inl e, conn, script))"

definition and_then :: "'a proc \<Rightarrow> ('a \<Rightarrow> 'b proc) \<Rightarrow> 'b proc" where
  "and_then m f = (\<lambda>s. case m s of
       (Inl e, conn, script) \<Rightarrow> (Inl e, conn, script)
     | (Inr x, conn, script) \<Rightarrow> f x (conn, script))"

text \<open>A call of a method that uses neither the connection nor the terminal.\<close>

definition call :: "py_error + 'a \<Rightarrow> 'a proc" where
  "call r = (case r of Inl e \<Rightarrow> raise e | Inr x \<Rightarrow> ret x)"

text \<open>\<open>for x in xs: f(x)\<close>.\<close>

fun for_each :: "'a list \<Rightarrow> ('a \<Rightarrow> unit proc) \<Rightarrow> unit proc" where
  "for_each [] f = ret ()"
| "for_each (x # xs) f = and_then (f x) (\<lambda>_. for_each xs f)"

text \<open>\<open>try: body except E: handler\<close> for one exception class.\<close>

definition try_except :: "'a proc \<Rightarrow> py_error \<Rightarrow> 'a proc \<Rightarrow> 'a proc" where
  "try_except body exc handler = (\<lambda>s. case body s of
       (Inl e, conn, script) \<Rightarrow>
         (if e = exc then handler (conn, script) else (Inl e, conn, script))
     | (Inr x, conn, script) \<Rightarrow> (Inr x, conn, script))"

text \<open>\<open>cursor.execute\<close> of a \<open>SELECT\<close>, and of an \<open>INSERT\<close> or \<open>UPDATE\<close>.\<close>

definition query :: "(store \<Rightarrow> 'a) \<Rightarrow> 'a proc" where
  "query f = (\<lambda>(conn, script). (Inr (f (pending conn)), conn, script))"

definition execute :: "(store \<Rightarrow> store) \<Rightarrow> unit proc" where
  "execute f = (\<lambda>(conn, script). (Inr (), conn\<lparr>pending := f (pending conn)\<rparr>, script))"

definition conn_commit :: "unit proc" where
  "conn_commit = (\<lambda>(conn, script). (Inr (), commit conn, script))"

definition conn_rollback :: "unit proc" where
  "conn_rollback = (\<lambda>(conn, script). (Inr (), rollback conn, script))"

text \<open>
  \<open>with sqlite3.connect(self.db_path) as conn: body\<close>: the connection's context manager
  commits when the body ends normally (a \<open>return\<close> inside included) and rolls back when an
  exception leaves it. The result is what the method returns or raises and the file
  afterwards.
\<close>

definition with_connect :: "'a proc \<Rightarrow> store \<Rightarrow> stdin_event list \<Rightarrow> (py_error + 'a) \<times> store" where
  "with_connect body db script =
     (case body (connect db, script) of
        (Inl e, conn, _) \<Rightarrow> (Inl e, disk (rollback conn))
      | (Inr x, conn, _) \<Rightarrow> (Inr x, disk (commit conn)))"

text \<open>\<open>input(prompt)\<close>.\<close>

fun input_line :: "string proc" where
  "input_line (conn, []) = (Inl EOFError, conn, [])"
| "input_line (conn, CtrlC # rest) = (Inl KeyboardInterrupt, conn, rest)"
| "input_line (conn, Line s # rest) = (Inr s, conn, rest)"

text \<open>\<open>float(input(prompt))\<close>, as \<open>register\<close> reads age, weight and height.\<close>

definition float_input :: "float_parser \<Rightarrow> real proc" where
  "float_input pf =
     and_then input_line (\<lambda>s. case pf s of None \<Rightarrow> raise ValueError | Some x \<Rightarrow> ret x)"

text \<open>\<open>get_float_input\<close>: asks again until \<open>float\<close> accepts the line.\<close>

fun get_float_input :: "float_parser \<Rightarrow> real proc" where
  "get_float_input pf (conn, []) = (Inl EOFError, conn, [])"
| "get_float_input pf (conn, CtrlC # rest) = (Inl KeyboardInterrupt, conn, rest)"
| "get_float_input pf (conn, Line s # rest) =
     (case pf s of
        Some x \<Rightarrow> (Inr x, conn, rest)
      | None \<Rightarrow> get_float_input pf (conn, rest))"

text \<open>
  The two \<open>while True\<close> loops of \<open>register\<close>: read a line, lower-case it, leave the loop
  when it is one of the accepted words.
\<close>

fun input_lower_until :: "string list \<Rightarrow> string proc" where
  "input_lower_until valid (conn, []) = (Inl EOFError, conn, [])"
| "input_lower_until valid (conn, CtrlC # rest) = (Inl KeyboardInterrupt, conn, rest)"
| "input_lower_until valid (conn, Line s # rest) =
     (if lower s \<in> set valid then (Inr (lower s), conn, rest)
      else input_lower_until valid (conn, rest))"

section \<open>Metric calculator\<close>

text \<open>
  \<open>calculate_bmr\<close>: the method returns a float, or \<open>None\<close> after printing
  "Invalid gender"; it has no \<open>raise\<close> of its own.
\<close>

definition calculate_bmr :: "string \<Rightarrow> real \<Rightarrow> real \<Rightarrow> real \<Rightarrow> py_error + real option" where
  "calculate_bmr gender weight height age =
     (if lower gender = ''female'' then
        Inr (Some (655.1 + (9.563 * weight) + (1.850 * height) - (4.676 * age)))
      else if lower gender = ''male'' then
        Inr (Some (66.47 + (13.75 * weight) + (5.003 * height) - (6.755 * age)))
      else Inr None)"

text \<open>
  \<open>calculate_goal_calories\<close>: \<open>bmr - 300\<close>, \<open>bmr + 300\<close> and \<open>float(bmr)\<close> raise
  \<open>TypeError\<close> on \<open>None\<close>, which is what \<open>calculate_bmr\<close> may hand over.
\<close>

definition calculate_goal_calories :: "real option \<Rightarrow> string \<Rightarrow> py_error + real" where
  "calculate_goal_calories bmr fitness_goal =
     (case bmr of
        None \<Rightarrow> Inl TypeError
      | Some b \<Rightarrow>
          if fitness_goal = ''lose'' then Inr (b - 300)
          else if fitness_goal = ''gain'' then Inr (b + 300)
          else Inr b)"


section \<open>Progress aggregator\<close>

text \<open>
  A row of the query of \<open>view_exercise_progress\<close>, in the order of its \<open>SELECT\<close> list:
  \<open>g.exercise_name, g.target_reps, g.target_weight, g.target_distance, g.target_duration,
  e.reps, e.weight, e.distance, e.duration\<close>.
\<close>

record progress_entry =
  p_exercise_name :: "string option"
  p_target_reps :: "real option"
  p_target_weight :: "real option"
  p_target_distance :: "real option"
  p_target_duration :: "real option"
  p_reps :: "real option"
  p_weight :: "real option"
  p_distance :: "real option"
  p_duration :: "real option"

text \<open>\<open>x IS NOT NULL\<close>.\<close>

definition not_null :: "'a option \<Rightarrow> bool" where
  "not_null x = (case x of None \<Rightarrow> False | Some _ \<Rightarrow> True)"

text \<open>
  \<open>goals g LEFT JOIN (...) e ON g.exercise_name = e.name\<close>: one joined row for each
  matching row of \<open>e\<close>, and one with \<open>e\<close> all \<open>NULL\<close> when none matches. A \<open>NULL\<close>
  exercise name matches nothing.
\<close>

definition left_join :: "goal_row \<Rightarrow> exercise_row list \<Rightarrow> (goal_row \<times> exercise_row option) list" where
  "left_join g e =
     (let matching = filter (\<lambda>x. g_exercise_name g = Some (e_name x)) e
      in if matching = [] then [(g, None)] else map (\<lambda>x. (g, Some x)) matching)"

definition select_columns :: "goal_row \<times> exercise_row option \<Rightarrow> progress_entry" where
  "select_columns ge = (case ge of (g, e) \<Rightarrow>
     \<lparr>p_exercise_name = g_exercise_name g,
      p_target_reps = g_target_reps g,
      p_target_weight = g_target_weight g,
      p_target_distance = g_target_distance g,
      p_target_duration = g_target_duration g,
      p_reps = map_option e_reps e,
      p_weight = map_option e_weight e,
      p_distance = map_option e_distance e,
      p_duration = map_option e_duration e\<rparr>)"

text \<open>
  The query: the subquery \<open>e\<close> keeps the user's log entries; the outer \<open>WHERE\<close> asks for
  a target that is not \<open>NULL\<close>. The goals are not restricted to a user.
\<close>

definition fetch_progress_data :: "nat \<Rightarrow> store \<Rightarrow> progress_entry list" where
  "fetch_progress_data user_id db =
     (let e = filter (\<lambda>x. e_user_id x = user_id) (exercises db);
          joined = concat (map (\<lambda>g. left_join g e) (goals db));
          selected = filter (\<lambda>ge. case ge of (g, _) \<Rightarrow>
                         not_null (g_target_reps g) \<or> not_null (g_target_weight g) \<or>
                         not_null (g_target_distance g) \<or> not_null (g_target_duration g))
                       joined
      in map select_columns selected)"

text \<open>\<open>entry[k]\<close> for the numeric columns, \<open>1 \<le> k \<le> 8\<close>, and \<open>entry[1:]\<close>.\<close>

definition entry_index :: "progress_entry \<Rightarrow> nat \<Rightarrow> real option" where
  "entry_index entry k =
     (if k = 1 then p_target_reps entry
      else if k = 2 then p_target_weight entry
      else if k = 3 then p_target_distance entry
      else if k = 4 then p_target_duration entry
      else if k = 5 then p_reps entry
      else if k = 6 then p_weight entry
      else if k = 7 then p_distance entry
      else p_duration entry)"

definition entry_tail :: "progress_entry \<Rightarrow> real option list" where
  "entry_tail entry = map (entry_index entry) [1 ..< 9]"

text \<open>Python's truth value of a number or \<open>None\<close>, as \<open>any\<close> tests it.\<close>

definition truthy :: "real option \<Rightarrow> bool" where
  "truthy v = (case v of None \<Rightarrow> False | Some x \<Rightarrow> x \<noteq> 0)"

text \<open>Python's \<open>/\<close>.\<close>

definition truediv :: "real \<Rightarrow> real \<Rightarrow> py_error + real" where
  "truediv a b = (if b = 0 then Inl ZeroDivisionError else Inr (a / b))"

text \<open>
  The value appended to \<open>values\<close> (the \<open>if goal_value is not None and goal_value != 0\<close>
  block).
\<close>

definition percentage_progress :: "real option \<Rightarrow> real option \<Rightarrow> py_error + real" where
  "percentage_progress goal_value actual_value =
     (if goal_value \<noteq> None \<and> goal_value \<noteq> Some 0 then
        (if actual_value \<noteq> None then
           (case truediv (the actual_value) (the goal_value) of
              Inl e \<Rightarrow> Inl e
            | Inr q \<Rightarrow> Inr (min (q * 100) 100))
         else Inr 0)
      else Inr 0)"

text \<open>
  The inner \<open>for entry in progress_data\<close> only assigns \<open>goal_value\<close> and
  \<open>actual_value\<close>; the block that appends to \<open>values\<close> stands after it, at the
  indentation of the \<open>for\<close>, and so sees the values of the last entry.
\<close>

definition last_assignment :: "nat \<Rightarrow> progress_entry list \<Rightarrow> (real option \<times> real option) option" where
  "last_assignment i progress_data =
     foldl (\<lambda>_ entry. Some (entry_index entry (i + 1), entry_index entry (i + 5))) None progress_data"

definition category_values :: "nat \<Rightarrow> progress_entry list \<Rightarrow> py_error + real list" where
  "category_values i progress_data =
     (case last_assignment i progress_data of
        None \<Rightarrow> Inl UnboundLocalError
      | Some (goal_value, actual_value) \<Rightarrow>
          (case percentage_progress goal_value actual_value of
             Inl e \<Rightarrow> Inl e
           | Inr percentage \<Rightarrow> Inr [percentage]))"

definition categories :: "string list" where
  "categories = [''Reps'', ''Weight'', ''Duration'', ''Distance'']"

text \<open>
  \<open>for i, category in enumerate(categories)\<close>; what is left after it is the last
  iteration's \<open>i\<close>, \<open>category\<close> and \<open>values\<close>.
\<close>

fun category_loop ::
  "(nat \<times> string) list \<Rightarrow> progress_entry list \<Rightarrow> (nat \<times> string \<times> real list) option \<Rightarrow>
     py_error + (nat \<times> string \<times> real list) option" where
  "category_loop [] progress_data bound = Inr bound"
| "category_loop ((i, category) # later) progress_data bound =
     (case category_values i progress_data of
        Inl e \<Rightarrow> Inl e
      | Inr values \<Rightarrow> category_loop later progress_data (Some (i, category, values)))"

text \<open>
  The one \<open>plt.bar(index + i * bar_width, values, bar_width, label=category)\<close>, which
  stands after the category loop, and the tick labels of \<open>plt.xticks\<close>.
\<close>

record bar_chart =
  bar_slot :: nat
  bar_values :: "real list"
  bar_label :: string
  xtick_labels :: "string option list"

text \<open>
  \<open>view_exercise_progress\<close>: \<^term>\<open>None\<close> when it prints "No exercise goals found" and
  returns, else the chart it hands to the plotting library. It writes nothing.
\<close>

definition view_exercise_progress :: "nat \<Rightarrow> store \<Rightarrow> py_error + bar_chart option" where
  "view_exercise_progress user_id db =
     (let fetched = fetch_progress_data user_id db;
          exercise_names = map p_exercise_name fetched;
          progress_data = filter (\<lambda>entry. list_ex truthy (entry_tail entry)) fetched
      in if progress_data = [] then Inr None
         else (case category_loop (enumerate 0 categories) progress_data None of
                 Inl e \<Rightarrow> Inl e
               | Inr None \<Rightarrow> Inl UnboundLocalError
               | Inr (Some (i, category, values)) \<Rightarrow>
                   Inr (Some \<lparr>bar_slot = i, bar_values = values, bar_label = category,
                              xtick_labels = exercise_names\<rparr>)))"

text \<open>A store for the examples: one goal of user 2, two log entries of user 1.\<close>

definition squat_store :: store where
  "squat_store = empty_store
     \<lparr>exercises :=
        [\<lparr>e_user_id = 1, e_name = ''Squat'', e_reps = 5, e_weight = 40, e_duration = 0,
          e_distance = 0, e_timestamp = 100\<rparr>,
         \<lparr>e_user_id = 1, e_name = ''Squat'', e_reps = 8, e_weight = 50, e_duration = 0,
          e_distance = 0, e_timestamp = 200\<rparr>],
      goals :=
        [\<lparr>g_user_id = 2, g_daily_calorie_goal = None, g_exercise_name = Some ''Squat'',
          g_target_reps = Some 10, g_target_weight = None, g_target_duration = None,
          g_target_distance = None\<rparr>]\<rparr>"

text \<open>A store with a negative duration target and a log entry for it.\<close>

definition plank_store :: store where
  "plank_store = empty_store
     \<lparr>exercises :=
        [\<lparr>e_user_id = 1, e_name = ''Plank'', e_reps = 0, e_weight = 0, e_duration = 10,
          e_distance = 0, e_timestamp = 100\<rparr>],
      goals :=
        [\<lparr>g_user_id = 1, g_daily_calorie_goal = None, g_exercise_name = Some ''Plank'',
          g_target_reps = None, g_target_weight = None, g_target_duration = Some (- 5),
          g_target_distance = None\<rparr>]\<rparr>"

section \<open>Registration\<close>

text \<open>The rowid an \<open>AUTOINCREMENT\<close> key gives the next row of a table nothing is deleted from.\<close>

definition next_rowid :: "nat list \<Rightarrow> nat" where
  "next_rowid ids = Suc (foldr max ids 0)"

definition insert_user ::
  "string \<Rightarrow> string \<Rightarrow> real \<Rightarrow> string \<Rightarrow> real \<Rightarrow> real \<Rightarrow> string \<Rightarrow> real option \<Rightarrow> store \<Rightarrow> store" where
  "insert_user username password age gender weight height fitness_goal bmr db =
     db\<lparr>users := users db @
       [\<lparr>u_id = next_rowid (map u_id (users db)), u_username = username, u_password = password,
         u_age = age, u_gender = gender, u_weight = weight, u_height = height,
         u_fitness_goal = fitness_goal, u_bmr = bmr\<rparr>]\<rparr>"

definition lastrowid_users :: "store \<Rightarrow> nat" where
  "lastrowid_users db = u_id (last (users db))"

definition insert_calorie_goal :: "nat \<Rightarrow> real \<Rightarrow> store \<Rightarrow> store" where
  "insert_calorie_goal user_id daily_calorie_goal db =
     db\<lparr>goals := goals db @
       [\<lparr>g_user_id = user_id, g_daily_calorie_goal = Some daily_calorie_goal,
         g_exercise_name = None, g_target_reps = None, g_target_weight = None,
         g_target_duration = None, g_target_distance = None\<rparr>]\<rparr>"

text \<open>
  \<open>register\<close>. Age, weight and height are read with \<open>float(input(...))\<close>, whose
  \<open>ValueError\<close> nothing catches. The method returns the new user's id, or \<open>None\<close> when
  the username is taken.
\<close>

definition register_body :: "float_parser \<Rightarrow> nat option proc" where
  "register_body pf =
     and_then input_line (\<lambda>username.
     and_then (query (\<lambda>db. find (\<lambda>u. u_username u = username) (users db))) (\<lambda>existing_user.
     if existing_user \<noteq> None then ret None
     else
     and_then input_line (\<lambda>password.
     and_then (float_input pf) (\<lambda>age.
     and_then (input_lower_until [''male'', ''female'']) (\<lambda>gender.
     and_then (float_input pf) (\<lambda>weight.
     and_then (float_input pf) (\<lambda>height.
     and_then (input_lower_until [''lose'', ''gain'', ''maintain'']) (\<lambda>fitness_goal.
     and_then (call (calculate_bmr gender weight height age)) (\<lambda>bmr.
     and_then (call (calculate_goal_calories bmr fitness_goal)) (\<lambda>initial_calorie_goal.
     and_then (execute (insert_user username password age gender weight height fitness_goal bmr)) (\<lambda>_.
     and_then (query lastrowid_users) (\<lambda>user_id.
     and_then (execute (insert_calorie_goal user_id initial_calorie_goal)) (\<lambda>_.
     ret (Some user_id))))))))))))))"

definition register :: "float_parser \<Rightarrow> store \<Rightarrow> stdin_event list \<Rightarrow> (py_error + nat option) \<times> store" where
  "register pf = with_connect (register_body pf)"

section \<open>Profile updates and the goal manager\<close>

text \<open>
  Option 2 of \<open>update_profile\<close> pastes the attribute the user typed, lower-cased, into
  the SQL text as \<open>target_{attribute}\<close>. What SQLite makes of that text is SQLite's
  business and a parameter of the model: the column of \<open>goals\<close> it reads there, or
  \<^term>\<open>None\<close> where it refuses the statement with \<open>sqlite3.OperationalError\<close>. A pasted
  text that turns the statements into other SQL is outside the model.
\<close>

datatype goal_attribute = Reps | Weight | Distance | Duration

type_synonym column_reader = "string \<Rightarrow> goal_attribute option"

fun target_of :: "goal_attribute \<Rightarrow> goal_row \<Rightarrow> real option" where
  "target_of Reps g = g_target_reps g"
| "target_of Weight g = g_target_weight g"
| "target_of Distance g = g_target_distance g"
| "target_of Duration g = g_target_duration g"

fun set_target :: "goal_attribute \<Rightarrow> real option \<Rightarrow> goal_row \<Rightarrow> goal_row" where
  "set_target Reps v g = g\<lparr>g_target_reps := v\<rparr>"
| "set_target Weight v g = g\<lparr>g_target_weight := v\<rparr>"
| "set_target Distance v g = g\<lparr>g_target_distance := v\<rparr>"
| "set_target Duration v g = g\<lparr>g_target_duration := v\<rparr>"

definition select_goal_with_target :: "nat \<Rightarrow> string \<Rightarrow> goal_attribute \<Rightarrow> store \<Rightarrow> goal_row option" where
  "select_goal_with_target user_id exercise_name column db =
     find (\<lambda>g. g_user_id g = user_id \<and> g_exercise_name g = Some exercise_name \<and>
                not_null (target_of column g)) (goals db)"

definition update_goal_target :: "nat \<Rightarrow> string \<Rightarrow> goal_attribute \<Rightarrow> real \<Rightarrow> store \<Rightarrow> store" where
  "update_goal_target user_id exercise_name column target_value db =
     db\<lparr>goals := map (\<lambda>g. if g_user_id g = user_id \<and> g_exercise_name g = Some exercise_name
                            then set_target column (Some target_value) g else g) (goals db)\<rparr>"

definition insert_goal_target :: "nat \<Rightarrow> string \<Rightarrow> goal_attribute \<Rightarrow> real \<Rightarrow> store \<Rightarrow> store" where
  "insert_goal_target user_id exercise_name column target_value db =
     db\<lparr>goals := goals db @
       [set_target column (Some target_value)
          \<lparr>g_user_id = user_id, g_daily_calorie_goal = None,
           g_exercise_name = Some exercise_name, g_target_reps = None, g_target_weight = None,
           g_target_duration = None, g_target_distance = None\<rparr>]\<rparr>"

definition update_user_weight :: "nat \<Rightarrow> real \<Rightarrow> store \<Rightarrow> store" where
  "update_user_weight user_id new_weight db =
     db\<lparr>users := map (\<lambda>u. if u_id u = user_id then u\<lparr>u_weight := new_weight\<rparr> else u) (users db)\<rparr>"

definition update_daily_calorie_goal :: "nat \<Rightarrow> real option \<Rightarrow> store \<Rightarrow> store" where
  "update_daily_calorie_goal user_id new_bmr db =
     db\<lparr>goals := map (\<lambda>g. if g_user_id g = user_id then g\<lparr>g_daily_calorie_goal := new_bmr\<rparr> else g)
                     (goals db)\<rparr>"

definition update_user_fitness_goal :: "nat \<Rightarrow> string \<Rightarrow> store \<Rightarrow> store" where
  "update_user_fitness_goal user_id new_goal db =
     db\<lparr>users := map (\<lambda>u. if u_id u = user_id then u\<lparr>u_fitness_goal := new_goal\<rparr> else u) (users db)\<rparr>"

text \<open>
  \<open>update_profile\<close>: option 1 updates the weight, option 2 sets an exercise goal, option 3
  the fitness goal; option 4 and anything else return at once. If no row of \<open>users\<close> has
  the id, \<open>height\<close>, \<open>age\<close> and \<open>gender\<close> are never bound.
\<close>

definition update_profile_body :: "float_parser \<Rightarrow> column_reader \<Rightarrow> nat \<Rightarrow> unit proc" where
  "update_profile_body pf column_of user_id =
     and_then input_line (\<lambda>option.
     if option = ''1'' then
       and_then (get_float_input pf) (\<lambda>new_weight.
       and_then (query (\<lambda>db. find (\<lambda>u. u_id u = user_id) (users db))) (\<lambda>user_biometrics.
       case user_biometrics of
         None \<Rightarrow> raise UnboundLocalError
       | Some u \<Rightarrow>
           and_then (call (calculate_bmr (u_gender u) new_weight (u_height u) (u_age u))) (\<lambda>new_bmr.
           and_then (execute (update_user_weight user_id new_weight)) (\<lambda>_.
           and_then (execute (update_daily_calorie_goal user_id new_bmr)) (\<lambda>_.
           and_then input_line (\<lambda>_. ret ()))))))
     else if option = ''2'' then
       and_then input_line (\<lambda>exercise_name.
       and_then input_line (\<lambda>attribute.
       and_then (get_float_input pf) (\<lambda>target_value.
       case column_of (lower attribute) of
         None \<Rightarrow> raise OperationalError
       | Some column \<Rightarrow>
           and_then (query (select_goal_with_target user_id exercise_name column)) (\<lambda>existing_goal.
           and_then (if existing_goal \<noteq> None
                     then execute (update_goal_target user_id exercise_name column target_value)
                     else execute (insert_goal_target user_id exercise_name column target_value)) (\<lambda>_.
           and_then input_line (\<lambda>_. ret ()))))))
     else if option = ''3'' then
       and_then input_line (\<lambda>new_goal.
       and_then (execute (update_user_fitness_goal user_id (lower new_goal))) (\<lambda>_.
       and_then input_line (\<lambda>_. ret ())))
     else ret ())"

definition update_profile ::
  "float_parser \<Rightarrow> column_reader \<Rightarrow> nat \<Rightarrow> store \<Rightarrow> stdin_event list \<Rightarrow>
     (py_error + unit) \<times> store" where
  "update_profile pf column_of user_id = with_connect (update_profile_body pf column_of user_id)"

section \<open>The exercise catalog\<close>

text \<open>
  \<open>get_other_exercises\<close>: \<open>INSERT OR IGNORE\<close> skips a row whose name is already in the
  table (\<open>name TEXT UNIQUE\<close>), whoever owns it. The dictionary it returns keeps insertion
  order.
\<close>

record intensities =
  light :: real
  moderate :: real
  intense :: real

definition pregenerated_exercises :: "(string \<times> real \<times> real \<times> real) list" where
  "pregenerated_exercises =
     [(''Running'', 8, 11, 14),
      (''Swimming'', 11, 14, 17),
      (''Padel'', 5, 8, 11),
      (''Climbing'', 7, 10, 13)]"

definition insert_or_ignore_other_exercise :: "nat \<Rightarrow> string \<times> real \<times> real \<times> real \<Rightarrow> store \<Rightarrow> store" where
  "insert_or_ignore_other_exercise user_id exercise db =
     (case exercise of (name, light_intensity, moderate_intensity, intense_intensity) \<Rightarrow>
        if name \<in> set (map o_name (other_exercises db)) then db
        else db\<lparr>other_exercises := other_exercises db @
               [\<lparr>o_user_id = Some user_id, o_name = name, o_light_intensity = light_intensity,
                 o_moderate_intensity = moderate_intensity,
                 o_intense_intensity = intense_intensity\<rparr>]\<rparr>)"

definition select_other_exercises :: "nat \<Rightarrow> store \<Rightarrow> other_exercise_row list" where
  "select_other_exercises user_id db =
     filter (\<lambda>r. o_user_id r = Some user_id \<or> o_user_id r = None) (other_exercises db)"

definition get_other_exercises_body :: "nat \<Rightarrow> (string \<times> intensities) list proc" where
  "get_other_exercises_body user_id =
     and_then (for_each pregenerated_exercises
                 (\<lambda>exercise. execute (insert_or_ignore_other_exercise user_id exercise))) (\<lambda>_.
     and_then (query (select_other_exercises user_id)) (\<lambda>rows.
     ret (foldl (\<lambda>fetch_other_exercises row.
                   AList.update (o_name row)
                     \<lparr>light = o_light_intensity row, moderate = o_moderate_intensity row,
                      intense = o_intense_intensity row\<rparr> fetch_other_exercises)
                [] rows)))"

definition get_other_exercises ::
  "nat \<Rightarrow> store \<Rightarrow> (py_error + (string \<times> intensities) list) \<times> store" where
  "get_other_exercises user_id db = with_connect (get_other_exercises_body user_id) db []"

section \<open>Routines\<close>

text \<open>One set: four numbers, and the tuple appended to \<open>exercise_list\<close>.\<close>

definition read_one_set ::
  "float_parser \<Rightarrow> nat \<Rightarrow> string \<Rightarrow> string \<Rightarrow> nat \<Rightarrow> routine_row list \<Rightarrow> routine_row list proc" where
  "read_one_set pf user_id routine_name exercise_name set_number exercise_list =
     and_then (get_float_input pf) (\<lambda>reps.
     and_then (get_float_input pf) (\<lambda>weight.
     and_then (get_float_input pf) (\<lambda>duration.
     and_then (get_float_input pf) (\<lambda>distance.
     ret (exercise_list @
       [\<lparr>r_user_id = user_id, r_routine_name = routine_name, r_exercise_name = exercise_name,
         r_reps = reps, r_weight = weight, r_sets = set_number, r_duration = duration,
         r_distance = distance\<rparr>])))))"

text \<open>\<open>for set_number in range(1, int(sets) + 1)\<close>.\<close>

fun read_sets ::
  "float_parser \<Rightarrow> nat \<Rightarrow> string \<Rightarrow> string \<Rightarrow> nat list \<Rightarrow> routine_row list \<Rightarrow> routine_row list proc" where
  "read_sets pf user_id routine_name exercise_name [] exercise_list = ret exercise_list"
| "read_sets pf user_id routine_name exercise_name (set_number # later) exercise_list =
     and_then (read_one_set pf user_id routine_name exercise_name set_number exercise_list)
       (read_sets pf user_id routine_name exercise_name later)"


text \<open>
  The \<open>while True\<close> loop of \<open>create_routine\<close> ends at the exercise name "end", or when
  a prompt raises. Every round reads at least the exercise name and no prompt gives events
  back, which is why the loop over a finite terminal ends.
\<close>

function entry_loop ::
  "float_parser \<Rightarrow> nat \<Rightarrow> string \<Rightarrow> routine_row list \<Rightarrow> routine_row list proc" where
  "entry_loop pf user_id routine_name exercise_list (conn, script) =
     (case input_line (conn, script) of
        (Inl e, s1) \<Rightarrow> (Inl e, s1)
      | (Inr exercise_name, s1) \<Rightarrow>
          if lower exercise_name = ''end'' then (Inr exercise_list, s1)
          else (case get_float_input pf s1 of
                  (Inl e, s2) \<Rightarrow> (Inl e, s2)
                | (Inr sets, s2) \<Rightarrow>
                    (case (if sets > 0 then
                             read_sets pf user_id routine_name exercise_name
                               [1 ..< nat \<lfloor>sets\<rfloor> + 1] exercise_list
                           else
                             read_one_set pf user_id routine_name exercise_name 1 exercise_list) s2 of
                       (Inl e, s3) \<Rightarrow> (Inl e, s3)
                     | (Inr appended, s3) \<Rightarrow> entry_loop pf user_id routine_name appended s3)))"
  by pat_completeness auto
termination
proof (relation "measure (\<lambda>(pf, user_id, routine_name, exercise_list, conn, script). length script)", goal_cases)
  case 1
  show ?case by simp
next
  case (2 pf user_id routine_name exercise_list conn script r1 s1 exercise_name r2 s2 sets r3 s3 appended)
  have float_length: "length (snd t') \<le> length (snd t)"
    if "get_float_input pf t = (r, t')" for t r t'
    using that by (induction pf t rule: get_float_input.induct) (auto split: option.splits)
  have and_then_length: "length (snd t') \<le> length (snd t)"
    if m: "\<And>t r t'. m t = (r, t') \<Longrightarrow> length (snd t') \<le> length (snd t)"
      and f: "\<And>x t r t'. f x t = (r, t') \<Longrightarrow> length (snd t') \<le> length (snd t)"
      and run: "and_then m f t = (r, t')"
    for m :: "'x proc" and f :: "'x \<Rightarrow> routine_row list proc" and t r t'
  proof (cases "m t")
    case (fields r1 conn1 script1)
    note step = m [OF fields]
    show ?thesis
    proof (cases r1)
      case (Inl e)
      with fields run step show ?thesis by (simp add: and_then_def)
    next
      case (Inr x)
      with fields run have "f x (conn1, script1) = (r, t')" by (simp add: and_then_def)
      from f [OF this] step show ?thesis by simp
    qed
  qed
  have one_set_length: "length (snd t') \<le> length (snd t)"
    if "read_one_set pf user_id routine_name name number rows t = (r, t')"
    for name number rows t r t'
    using that unfolding read_one_set_def
    by (elim and_then_length [rotated 2] float_length) (auto simp: ret_def split: prod.splits)
  have sets_length: "length (snd t') \<le> length (snd t)"
    if "read_sets pf user_id routine_name name numbers rows t = (r, t')"
    for name numbers rows t r t'
    using that
  proof (induction numbers arbitrary: rows t r t')
    case Nil
    then show ?case by (auto simp: ret_def split: prod.splits)
  next
    case (Cons set_number later)
    from Cons.prems show ?case
      by (simp, elim and_then_length [rotated 2]) (erule one_set_length, erule Cons.IH)
  qed
  from 2 have a: "length (snd s1) < length script"
    by (cases "(conn, script)" rule: input_line.cases) auto
  from 2 have b: "length (snd s2) \<le> length (snd s1)"
    using float_length [of s1 "Inr sets" s2] by simp
  have c: "length (snd s3) \<le> length (snd s2)"
  proof (cases "0 < sets")
    case True
    with 2 have "read_sets pf user_id routine_name exercise_name [1 ..< nat \<lfloor>sets\<rfloor> + 1]
                   exercise_list s2 = (Inr appended, s3)"
      by simp
    then show ?thesis by (rule sets_length)
  next
    case False
    with 2 have "read_one_set pf user_id routine_name exercise_name 1 exercise_list s2 =
                   (Inr appended, s3)"
      by simp
    then show ?thesis by (rule one_set_length)
  qed
  from a b c show ?case by (simp add: case_prod_unfold)
qed


text \<open>
  \<open>create_routine\<close>: what it printed last tells a finished entry from one the user
  aborted.
\<close>

datatype routine_outcome = RoutineCreated | OperationAborted

definition routine_name_exists :: "nat \<Rightarrow> string \<Rightarrow> store \<Rightarrow> bool" where
  "routine_name_exists user_id routine_name db =
     (find (\<lambda>r. r_user_id r = user_id \<and> r_routine_name r = routine_name) (routines db) \<noteq> None)"

definition insert_routine :: "routine_row \<Rightarrow> store \<Rightarrow> store" where
  "insert_routine exercise db = db\<lparr>routines := routines db @ [exercise]\<rparr>"

definition create_routine_try :: "float_parser \<Rightarrow> nat \<Rightarrow> routine_outcome proc" where
  "create_routine_try pf user_id =
     and_then input_line (\<lambda>routine_name.
     and_then (query (routine_name_exists user_id routine_name)) (\<lambda>exists.
     and_then (if exists then and_then input_line (\<lambda>_. ret ()) else ret ()) (\<lambda>_.
     and_then (entry_loop pf user_id routine_name []) (\<lambda>exercise_list.
     and_then (for_each exercise_list (\<lambda>exercise. execute (insert_routine exercise))) (\<lambda>_.
     and_then input_line (\<lambda>_.
     and_then conn_commit (\<lambda>_.
     ret RoutineCreated)))))))"

definition create_routine ::
  "float_parser \<Rightarrow> nat \<Rightarrow> store \<Rightarrow> stdin_event list \<Rightarrow> (py_error + routine_outcome) \<times> store" where
  "create_routine pf user_id =
     with_connect
       (try_except (create_routine_try pf user_id) KeyboardInterrupt
          (and_then conn_rollback (\<lambda>_. ret OperationAborted)))"


section \<open>Example inputs\<close>

text \<open>
  A reading of \<open>float\<close> for the examples: a string of decimal digits is its number, as in
  Python; every other string is refused here (the examples type only digit strings and
  words that \<open>float\<close> refuses as well).
\<close>

definition digit_of :: "char \<Rightarrow> nat option" where
  "digit_of c = map_of (zip ''0123456789'' [0, 1, 2, 3, 4, 5, 6, 7, 8, 9]) c"

fun digits_value :: "nat \<Rightarrow> string \<Rightarrow> nat option" where
  "digits_value acc [] = Some acc"
| "digits_value acc (c # cs) =
     (case digit_of c of None \<Rightarrow> None | Some d \<Rightarrow> digits_value (10 * acc + d) cs)"

definition example_float :: float_parser where
  "example_float s = (if s = [] then None else map_option real (digits_value 0 s))"

text \<open>
  A reading of the pasted attribute for the examples: each of the four names, typed
  exactly, is its column, as in SQLite; the examples type no other attribute.
\<close>

definition example_column :: column_reader where
  "example_column attribute =
     (if attribute = ''reps'' then Some Reps
      else if attribute = ''weight'' then Some Weight
      else if attribute = ''distance'' then Some Distance
      else if attribute = ''duration'' then Some Duration
      else None)"

text \<open>User 1 after setting a reps goal of 10 and then a weight goal of 50 for Squat.\<close>

definition squat_reps_goal :: goal_row where
  "squat_reps_goal =
     \<lparr>g_user_id = 1, g_daily_calorie_goal = None, g_exercise_name = Some ''Squat'',
      g_target_reps = Some 10, g_target_weight = None, g_target_duration = None,
      g_target_distance = None\<rparr>"

definition squat_weight_goal :: goal_row where
  "squat_weight_goal =
     \<lparr>g_user_id = 1, g_daily_calorie_goal = None, g_exercise_name = Some ''Squat'',
      g_target_reps = None, g_target_weight = Some 50, g_target_duration = None,
      g_target_distance = None\<rparr>"

text \<open>Ann: female, 30 years, 60 kg, 165 cm, registered first with the goal to lose.\<close>

definition ann :: user_row where
  "ann =
     \<lparr>u_id = 1, u_username = ''ann'', u_password = ''pw'', u_age = 30, u_gender = ''female'',
      u_weight = 60, u_height = 165, u_fitness_goal = ''lose'', u_bmr = Some 1393.85\<rparr>"

definition ann_calorie_goal :: goal_row where
  "ann_calorie_goal =
     \<lparr>g_user_id = 1, g_daily_calorie_goal = Some 1093.85, g_exercise_name = None,
      g_target_reps = None, g_target_weight = None, g_target_duration = None,
      g_target_distance = None\<rparr>"

definition ann_store :: store where
  "ann_store = empty_store\<lparr>users := [ann], goals := [ann_calorie_goal]\<rparr>"

text \<open>The catalog as the first call of \<open>get_other_exercises\<close>, by user 1, leaves it.\<close>

definition seeded_by_1 :: store where
  "seeded_by_1 = empty_store
     \<lparr>other_exercises :=
        [\<lparr>o_user_id = Some 1, o_name = ''Running'', o_light_intensity = 8,
          o_moderate_intensity = 11, o_intense_intensity = 14\<rparr>,
         \<lparr>o_user_id = Some 1, o_name = ''Swimming'', o_light_intensity = 11,
          o_moderate_intensity = 14, o_intense_intensity = 17\<rparr>,
         \<lparr>o_user_id = Some 1, o_name = ''Padel'', o_light_intensity = 5,
          o_moderate_intensity = 8, o_intense_intensity = 11\<rparr>,
         \<lparr>o_user_id = Some 1, o_name = ''Climbing'', o_light_intensity = 7,
          o_moderate_intensity = 10, o_intense_intensity = 13\<rparr>]\<rparr>"

text \<open>Ben registers after Ann, mistyping the gender once.\<close>

definition ben_script :: "stdin_event list" where
  "ben_script =
     [Line ''ben'', Line ''pw2'', Line ''41'', Line ''robot'', Line ''MALE'', Line ''80'',
      Line ''180'', Line ''gain'']"

definition ben :: user_row where
  "ben =
     \<lparr>u_id = 2, u_username = ''ben'', u_password = ''pw2'', u_age = 41, u_gender = ''male'',
      u_weight = 80, u_height = 180, u_fitness_goal = ''gain'', u_bmr = Some 1790.055\<rparr>"

definition ann_ben_store :: store where
  "ann_ben_store = ann_store
     \<lparr>users := [ann, ben],
      goals := [ann_calorie_goal,
                \<lparr>g_user_id = 2, g_daily_calorie_goal = Some 2090.055, g_exercise_name = None,
                 g_target_reps = None, g_target_weight = None, g_target_duration = None,
                 g_target_distance = None\<rparr>]\<rparr>"

text \<open>
  What Ann types for a routine of two sets of squats: in full, one weight mistyped, up to
  the closing prompt; and up to the reps of the second set.
\<close>

definition legs_lines :: "string list" where
  "legs_lines =
     [''Legs'', ''Squat'', ''2'',
      ''8'', ''50'', ''0'', ''0'',
      ''8'', ''x'', ''60'', ''0'', ''0'',
      ''END'']"

definition half_set_lines :: "string list" where
  "half_set_lines = [''Legs'', ''Squat'', ''2'', ''8'', ''50'', ''0'', ''0'', ''8'']"

section \<open>What a procedure leaves of the connection\<close>

text \<open>
  \<open>keeps_conn m\<close>: \<open>m\<close> only reads the terminal. \<open>keeps_disk m\<close>: \<open>m\<close> never commits.
  \<open>raises_before_commit m\<close>: when \<open>m\<close> raises, nothing was committed.
\<close>

definition keeps_conn :: "'a proc \<Rightarrow> bool" where
  "keeps_conn m = (\<forall>conn script r conn' script'.
     m (conn, script) = (r, conn', script') \<longrightarrow> conn' = conn)"

definition keeps_disk :: "'a proc \<Rightarrow> bool" where
  "keeps_disk m = (\<forall>conn script r conn' script'.
     m (conn, script) = (r, conn', script') \<longrightarrow> disk conn' = disk conn)"

definition raises_before_commit :: "'a proc \<Rightarrow> bool" where
  "raises_before_commit m = (\<forall>conn script e conn' script'.
     m (conn, script) = (Inl e, conn', script') \<longrightarrow> disk conn' = disk conn)"

text \<open>
  \<open>interruptible_at m conn ls\<close>: run on the typed lines \<open>ls\<close> and nothing else, \<open>m\<close>
  either returns, and then returns the same with any further events left unread, or
  stops at a prompt with \<open>EOFError\<close>, and then a Ctrl-C typed next makes that prompt
  raise \<open>KeyboardInterrupt\<close> in the same connection state.
\<close>

definition interruptible_at :: "'a proc \<Rightarrow> connection \<Rightarrow> string list \<Rightarrow> bool" where
  "interruptible_at m conn ls =
     ((\<forall>e conn' script'. m (conn, map Line ls) = (Inl e, conn', script') \<longrightarrow>
          e = EOFError \<and>
          (\<forall>rest. m (conn, map Line ls @ CtrlC # rest) = (Inl KeyboardInterrupt, conn', rest))) \<and>
      (\<forall>x conn' script'. m (conn, map Line ls) = (Inr x, conn', script') \<longrightarrow>
          (\<exists>ls'. script' = map Line ls' \<and>
             (\<forall>rest. m (conn, map Line ls @ CtrlC # rest) =
                (Inr x, conn', map Line ls' @ CtrlC # rest)))))"

definition interruptible :: "'a proc \<Rightarrow> bool" where
  "interruptible m = (\<forall>conn ls. interruptible_at m conn ls)"


section \<open>Theorems\<close>

subsection \<open>Running a procedure on a concrete input\<close>

lemma ret_apply: "ret x (conn, script) = (Inr x, conn, script)"
  by (simp add: ret_def)

lemma raise_apply: "raise e (conn, script) = (Inl e, conn, script)"
  by (simp add: raise_def)

lemma query_apply: "query f (conn, script) = (Inr (f (pending conn)), conn, script)"
  by (simp add: query_def)

lemma execute_apply:
  "execute f (conn, script) = (Inr (), conn\<lparr>pending := f (pending conn)\<rparr>, script)"
  by (simp add: execute_def)

lemma conn_commit_apply: "conn_commit (conn, script) = (Inr (), commit conn, script)"
  by (simp add: conn_commit_def)

lemma conn_rollback_apply: "conn_rollback (conn, script) = (Inr (), rollback conn, script)"
  by (simp add: conn_rollback_def)

lemma call_Inr: "call (Inr x) = ret x"
  by (simp add: call_def)

lemma call_Inl: "call (Inl e) = raise e"
  by (simp add: call_def)

lemma and_then_apply:
  "and_then m f s = (case m s of (Inl e, s') \<Rightarrow> (Inl e, s') | (Inr x, s') \<Rightarrow> f x s')"
  by (simp add: and_then_def split: prod.splits sum.splits)

lemma try_except_apply:
  "try_except body exc handler s =
     (case body s of
        (Inl e, s') \<Rightarrow> (if e = exc then handler s' else (Inl e, s'))
      | (Inr x, s') \<Rightarrow> (Inr x, s'))"
  by (simp add: try_except_def split: prod.splits sum.splits)

lemmas proc_eval =
  ret_apply raise_apply query_apply execute_apply conn_commit_apply conn_rollback_apply
  call_Inr call_Inl and_then_apply try_except_apply with_connect_def connect_def commit_def
  rollback_def

lemmas lazy_cong = prod.case_cong_weak sum.case_cong_weak option.case_cong_weak if_weak_cong

lemma example_float_values:
  "example_float ''10'' = Some 10" "example_float ''12'' = Some 12"
  "example_float ''50'' = Some 50" "example_float ''70'' = Some 70"
  "example_float ''60'' = Some 60" "example_float ''165'' = Some 165"
  "example_float ''30'' = Some 30" "example_float ''2'' = Some 2"
  "example_float ''8'' = Some 8" "example_float ''x'' = None"
  by (simp_all add: example_float_def digit_of_def)

lemma lower_values:
  "lower ''reps'' = ''reps''" "lower ''weight'' = ''weight''" "lower ''Female'' = ''female''"
  "lower ''Lose'' = ''lose''" "lower ''Squat'' = ''squat''" "lower ''END'' = ''end''"
  by (simp_all add: lower_def lower_char_def)


subsection \<open>Basal metabolic rate\<close>

lemma lower_female: "lower ''female'' = ''female''"
  by (simp add: lower_def lower_char_def)

lemma lower_male: "lower ''male'' = ''male''"
  by (simp add: lower_def lower_char_def)

text \<open>
  C4. For every weight, height and age, \<open>calculate_bmr\<close> returns
  \<open>655.1 + 9.563 w + 1.850 h - 4.676 a\<close> for the gender female and
  \<open>66.47 + 13.75 w + 5.003 h - 6.755 a\<close> for the gender male (in any letter case, as the
  method lower-cases its argument); for female, 60 kg, 165 cm and 30 years it is the
  formula at those numbers.
\<close>

theorem calculate_bmr_formula:
  "(lower gender = ''female'' \<longrightarrow>
      calculate_bmr gender w h a = Inr (Some (655.1 + 9.563 * w + 1.850 * h - 4.676 * a))) \<and>
   (lower gender = ''male'' \<longrightarrow>
      calculate_bmr gender w h a = Inr (Some (66.47 + 13.75 * w + 5.003 * h - 6.755 * a))) \<and>
   calculate_bmr ''female'' 60 165 30 =
      Inr (Some (655.1 + 9.563 * 60 + 1.850 * 165 - 4.676 * 30))"
  unfolding calculate_bmr_def lower_female by simp

theorem calculate_bmr_formula_witness:
  "lower ''Female'' = ''female'' \<and>
   calculate_bmr ''Female'' 72 180 41 = Inr (Some (655.1 + 9.563 * 72 + 1.850 * 180 - 4.676 * 41)) \<and>
   lower ''MALE'' = ''male'' \<and>
   calculate_bmr ''MALE'' 72 180 41 = Inr (Some (66.47 + 13.75 * 72 + 5.003 * 180 - 6.755 * 41))"
  using calculate_bmr_formula [of "''Female''" 72 180 41]
        calculate_bmr_formula [of "''MALE''" 72 180 41]
  by (simp add: lower_def lower_char_def)

text \<open>
  C5, as the specification states it: an unsupported gender makes \<open>calculate_bmr\<close> raise.
  The method returns \<open>None\<close> instead, as its docstring says.
\<close>

theorem calculate_bmr_unsupported_counterexample:
  "calculate_bmr ''other'' 60 165 30 = Inr None"
  by (simp add: calculate_bmr_def lower_def lower_char_def)

text \<open>
  C5, amended. For every gender string that is neither female nor male after
  lower-casing, and any weight, height and age, \<open>calculate_bmr\<close> returns \<open>None\<close>: no
  number, defaulted or not, and no exception.
\<close>

theorem calculate_bmr_unsupported:
  "lower gender \<noteq> ''female'' \<Longrightarrow> lower gender \<noteq> ''male'' \<Longrightarrow>
   calculate_bmr gender w h a = Inr None"
  by (simp add: calculate_bmr_def)

theorem calculate_bmr_unsupported_witness:
  "lower ''Unknown'' \<noteq> ''female'' \<and> lower ''Unknown'' \<noteq> ''male'' \<and>
   calculate_bmr ''Unknown'' 80 175 25 = Inr None"
proof -
  have f: "lower ''Unknown'' \<noteq> ''female''" and m: "lower ''Unknown'' \<noteq> ''male''"
    by (simp_all add: lower_def lower_char_def)
  from calculate_bmr_unsupported [OF f m, of 80 175 25] f m show ?thesis by simp
qed

subsection \<open>Progress percentages\<close>

text \<open>
  C1, as the specification states it: a negative target yields 0, and the percentage lies
  between 0 and 100. The guard of the code is \<open>goal_value != 0\<close> and nothing bounds the
  quotient from below: target \<open>-5\<close> with actual 10 gives \<open>-200\<close>, target 10 with the
  actual \<open>-5\<close> gives \<open>-50\<close>, and the first is what the chart of \<open>plank_store\<close> shows.
\<close>

theorem percentage_progress_counterexample:
  "percentage_progress (Some (- 5)) (Some 10) = Inr (- 200) \<and>
   percentage_progress (Some 10) (Some (- 5)) = Inr (- 50) \<and>
   view_exercise_progress 1 plank_store =
     Inr (Some \<lparr>bar_slot = 3, bar_values = [- 200], bar_label = ''Distance'',
                xtick_labels = [Some ''Plank'']\<rparr>)"
  by (simp add: percentage_progress_def truediv_def view_exercise_progress_def
      fetch_progress_data_def left_join_def select_columns_def not_null_def plank_store_def
      empty_store_def entry_tail_def entry_index_def truthy_def categories_def
      category_values_def last_assignment_def upt_rec [of _ "numeral _"])

text \<open>
  C1, amended. For every pair of a goal value and an actual value that the loop evaluates:
  if the target \<open>t\<close> is not null and not zero and an actual value \<open>a\<close> exists, the
  percentage is \<open>min (a / t * 100) 100\<close>, which is at most 100, and it lies in \<open>[0, 100]\<close>
  when moreover \<open>t > 0\<close> and \<open>a \<ge> 0\<close>; if the target is null or zero, or no actual value
  exists, the percentage is 0; and no case divides by zero.
\<close>

theorem percentage_progress_amended:
  "(t \<noteq> 0 \<longrightarrow>
      percentage_progress (Some t) (Some a) = Inr (min (a / t * 100) 100) \<and>
      min (a / t * 100) 100 \<le> 100) \<and>
   (0 < t \<and> 0 \<le> a \<longrightarrow> 0 \<le> min (a / t * 100) 100) \<and>
   percentage_progress None actual = Inr 0 \<and>
   percentage_progress (Some 0) actual = Inr 0 \<and>
   percentage_progress goal None = Inr 0 \<and>
   percentage_progress goal actual \<noteq> Inl ZeroDivisionError"
  by (cases goal; cases actual) (auto simp: percentage_progress_def truediv_def)

theorem percentage_progress_amended_witness:
  "(4::real) \<noteq> 0 \<and> (0::real) < 4 \<and> (0::real) \<le> 3 \<and>
   percentage_progress (Some 4) (Some 3) = Inr 75 \<and>
   percentage_progress (Some 4) (Some 9) = Inr 100"
  using percentage_progress_amended [of 4 3 None None]
        percentage_progress_amended [of 4 9 None None]
  by simp

subsection \<open>The progress query\<close>

text \<open>
  C2 fails on the code. Queried for user 1 on \<open>squat_store\<close>, the query returns the goal of
  user 2, and returns it twice, once for each of user 1's two log entries named Squat,
  the older one first: the goals are not restricted to the user, and the join takes every
  matching log entry, not the most recent one.
\<close>

theorem fetch_progress_data_squat:
  "fetch_progress_data 1 squat_store =
     [\<lparr>p_exercise_name = Some ''Squat'', p_target_reps = Some 10, p_target_weight = None,
       p_target_distance = None, p_target_duration = None,
       p_reps = Some 5, p_weight = Some 40, p_distance = Some 0, p_duration = Some 0\<rparr>,
      \<lparr>p_exercise_name = Some ''Squat'', p_target_reps = Some 10, p_target_weight = None,
       p_target_distance = None, p_target_duration = None,
       p_reps = Some 8, p_weight = Some 50, p_distance = Some 0, p_duration = Some 0\<rparr>]"
  by (simp add: fetch_progress_data_def left_join_def select_columns_def not_null_def
      squat_store_def empty_store_def)


subsection \<open>The goal manager\<close>

text \<open>
  C3 fails on the code. User 1 sets reps to 10 for Squat, then weight to 50: the second
  call finds no row with a weight target and inserts a second row, so the reps value is
  kept. Setting reps to 12 then finds the first row, and its \<open>UPDATE\<close>, which has no
  \<open>target_reps IS NOT NULL\<close> in its \<open>WHERE\<close>, writes 12 into both rows: the row that
  held only the weight target is changed as well.
\<close>

theorem update_profile_reps_twice:
  "update_profile example_float example_column 1 empty_store
      [Line ''2'', Line ''Squat'', Line ''reps'', Line ''10'', Line ''''] =
     (Inr (), empty_store\<lparr>goals := [squat_reps_goal]\<rparr>) \<and>
   update_profile example_float example_column 1 (empty_store\<lparr>goals := [squat_reps_goal]\<rparr>)
      [Line ''2'', Line ''Squat'', Line ''weight'', Line ''50'', Line ''''] =
     (Inr (), empty_store\<lparr>goals := [squat_reps_goal, squat_weight_goal]\<rparr>) \<and>
   update_profile example_float example_column 1 (empty_store\<lparr>goals := [squat_reps_goal, squat_weight_goal]\<rparr>)
      [Line ''2'', Line ''Squat'', Line ''reps'', Line ''12'', Line ''''] =
     (Inr (), empty_store\<lparr>goals := [squat_reps_goal\<lparr>g_target_reps := Some 12\<rparr>,
                                      squat_weight_goal\<lparr>g_target_reps := Some 12\<rparr>]\<rparr>)"
  by (simp add: update_profile_def update_profile_body_def proc_eval example_float_values
      lower_values example_column_def select_goal_with_target_def update_goal_target_def
      insert_goal_target_def not_null_def squat_reps_goal_def squat_weight_goal_def
      empty_store_def cong: lazy_cong)

subsection \<open>The weight update\<close>

text \<open>
  C6 fails on the code. Ann registers (female, 30 years, 60 kg, 165 cm, goal to lose):
  her row holds the BMR 1393.85 and her goal row 1093.85. She then updates her weight to
  70: the row holds the weight 70 and still the BMR 1393.85, not the 1489.48 of
  \<open>calculate_bmr\<close> at 70 kg, which is written into the daily calorie goal instead.
\<close>

theorem update_profile_weight_keeps_bmr:
  "register example_float empty_store
      [Line ''ann'', Line ''pw'', Line ''30'', Line ''Female'', Line ''60'', Line ''165'',
       Line ''Lose''] = (Inr (Some 1), ann_store) \<and>
   update_profile example_float example_column 1 ann_store [Line ''1'', Line ''70'', Line ''''] =
     (Inr (), ann_store\<lparr>users := [ann\<lparr>u_weight := 70\<rparr>],
                        goals := [ann_calorie_goal\<lparr>g_daily_calorie_goal := Some 1489.48\<rparr>]\<rparr>) \<and>
   u_bmr (ann\<lparr>u_weight := 70\<rparr>) = Some 1393.85 \<and>
   calculate_bmr ''female'' 70 165 30 = Inr (Some 1489.48)"
  by (simp add: register_def register_body_def update_profile_def update_profile_body_def
      proc_eval float_input_def example_float_values lower_values calculate_bmr_def
      calculate_goal_calories_def insert_user_def lastrowid_users_def insert_calorie_goal_def
      next_rowid_def update_user_weight_def update_daily_calorie_goal_def ann_store_def ann_def
      ann_calorie_goal_def empty_store_def lower_female cong: lazy_cong)

subsection \<open>The exercise catalog\<close>

text \<open>
  C9 fails on the code. On an empty table user 1 gets the four catalog exercises, stored
  as rows owned by user 1. User 2 then gets an empty dictionary: the four names exist, so
  nothing is inserted, and no row is owned by user 2 or by nobody.
\<close>

theorem get_other_exercises_second_user:
  "get_other_exercises 1 empty_store =
     (Inr [(''Running'', \<lparr>light = 8, moderate = 11, intense = 14\<rparr>),
           (''Swimming'', \<lparr>light = 11, moderate = 14, intense = 17\<rparr>),
           (''Padel'', \<lparr>light = 5, moderate = 8, intense = 11\<rparr>),
           (''Climbing'', \<lparr>light = 7, moderate = 10, intense = 13\<rparr>)], seeded_by_1) \<and>
   get_other_exercises 2 seeded_by_1 = (Inr [], seeded_by_1)"
  by (simp add: get_other_exercises_def get_other_exercises_body_def proc_eval
      pregenerated_exercises_def insert_or_ignore_other_exercise_def select_other_exercises_def
      seeded_by_1_def empty_store_def cong: lazy_cong)

subsection \<open>Procedures that do not commit\<close>

lemma keeps_connD:
  "keeps_conn m \<Longrightarrow> m (conn, script) = (r, conn', script') \<Longrightarrow> conn' = conn"
  unfolding keeps_conn_def by blast

lemma keeps_diskD:
  "keeps_disk m \<Longrightarrow> m (conn, script) = (r, conn', script') \<Longrightarrow> disk conn' = disk conn"
  unfolding keeps_disk_def by blast

lemma raises_before_commitD:
  "raises_before_commit m \<Longrightarrow> m (conn, script) = (Inl e, conn', script') \<Longrightarrow>
   disk conn' = disk conn"
  unfolding raises_before_commit_def by blast

lemma keeps_conn_disk: "keeps_conn m \<Longrightarrow> keeps_disk m"
  unfolding keeps_conn_def keeps_disk_def by blast

lemma keeps_disk_raises: "keeps_disk m \<Longrightarrow> raises_before_commit m"
  unfolding keeps_disk_def raises_before_commit_def by blast

lemma keeps_conn_ret: "keeps_conn (ret x)"
  by (simp add: keeps_conn_def ret_apply)

lemma keeps_conn_query: "keeps_conn (query f)"
  by (simp add: keeps_conn_def query_apply)

lemma keeps_conn_input_line: "keeps_conn input_line"
proof -
  have "conn' = conn" if "input_line (conn, script) = (r, conn', script')"
    for conn script r conn' script'
    using that by (cases "(conn, script)" rule: input_line.cases) auto
  then show ?thesis unfolding keeps_conn_def by blast
qed

lemma keeps_conn_get_float_input: "keeps_conn (get_float_input pf)"
proof -
  have "conn' = conn" if "get_float_input pf (conn, script) = (r, conn', script')"
    for conn script r conn' script'
    using that
    by (induction pf "(conn, script)" arbitrary: script rule: get_float_input.induct)
       (auto split: option.splits)
  then show ?thesis unfolding keeps_conn_def by blast
qed

lemma keeps_conn_and_then:
  assumes "keeps_conn m" and "\<And>x. keeps_conn (f x)"
  shows "keeps_conn (and_then m f)"
  unfolding keeps_conn_def
proof (intro allI impI)
  fix conn script r conn' script'
  assume run: "and_then m f (conn, script) = (r, conn', script')"
  obtain r1 conn1 script1 where m: "m (conn, script) = (r1, conn1, script1)"
    by (cases "m (conn, script)") auto
  with assms(1) have c1: "conn1 = conn" by (auto dest: keeps_connD)
  show "conn' = conn"
  proof (cases r1)
    case (Inl e)
    with m run c1 show ?thesis by (simp add: and_then_apply)
  next
    case (Inr x)
    with m run have "f x (conn1, script1) = (r, conn', script')" by (simp add: and_then_apply)
    with assms(2) [of x] c1 show ?thesis by (auto dest: keeps_connD)
  qed
qed

lemma keeps_disk_and_then:
  assumes "keeps_disk m" and "\<And>x. keeps_disk (f x)"
  shows "keeps_disk (and_then m f)"
  unfolding keeps_disk_def
proof (intro allI impI)
  fix conn script r conn' script'
  assume run: "and_then m f (conn, script) = (r, conn', script')"
  obtain r1 conn1 script1 where m: "m (conn, script) = (r1, conn1, script1)"
    by (cases "m (conn, script)") auto
  with assms(1) have c1: "disk conn1 = disk conn" by (auto dest: keeps_diskD)
  show "disk conn' = disk conn"
  proof (cases r1)
    case (Inl e)
    with m run c1 show ?thesis by (simp add: and_then_apply)
  next
    case (Inr x)
    with m run have "f x (conn1, script1) = (r, conn', script')" by (simp add: and_then_apply)
    with assms(2) [of x] c1 show ?thesis by (auto dest: keeps_diskD)
  qed
qed

lemma raises_before_commit_and_then:
  assumes "keeps_disk m" and "\<And>x. raises_before_commit (f x)"
  shows "raises_before_commit (and_then m f)"
  unfolding raises_before_commit_def
proof (intro allI impI)
  fix conn script e conn' script'
  assume run: "and_then m f (conn, script) = (Inl e, conn', script')"
  obtain r1 conn1 script1 where m: "m (conn, script) = (r1, conn1, script1)"
    by (cases "m (conn, script)") auto
  with assms(1) have c1: "disk conn1 = disk conn" by (auto dest: keeps_diskD)
  show "disk conn' = disk conn"
  proof (cases r1)
    case (Inl e1)
    with m run c1 show ?thesis by (simp add: and_then_apply)
  next
    case (Inr x)
    with m run have "f x (conn1, script1) = (Inl e, conn', script')"
      by (simp add: and_then_apply)
    with assms(2) [of x] c1 show ?thesis by (auto dest: raises_before_commitD)
  qed
qed

lemma keeps_disk_if: "keeps_disk a \<Longrightarrow> keeps_disk b \<Longrightarrow> keeps_disk (if c then a else b)"
  by simp

lemma keeps_disk_execute: "keeps_disk (execute f)"
  by (simp add: keeps_disk_def execute_apply)

lemma keeps_disk_for_each:
  "(\<And>x. keeps_disk (f x)) \<Longrightarrow> keeps_disk (for_each xs f)"
  by (induction xs) (simp_all add: keeps_conn_disk keeps_conn_ret keeps_disk_and_then)

subsection \<open>Registration\<close>

lemma and_then_InrE:
  assumes "and_then m f s = (Inr y, s')"
  obtains x conn1 script1 where "m s = (Inr x, conn1, script1)" "f x (conn1, script1) = (Inr y, s')"
  using assms by (auto simp: and_then_def split: prod.splits sum.splits)

lemma input_line_Inr:
  "input_line (conn, script) = (Inr x, conn', script') \<Longrightarrow> conn' = conn \<and> script = Line x # script'"
  by (cases "(conn, script)" rule: input_line.cases) auto

lemma float_input_Inr:
  "float_input pf (conn, script) = (Inr x, conn', script') \<Longrightarrow> conn' = conn"
  by (auto simp: float_input_def raise_apply ret_apply elim!: and_then_InrE
      dest!: input_line_Inr split: option.splits)

lemma input_lower_until_Inr:
  "input_lower_until valid (conn, script) = (Inr x, conn', script') \<Longrightarrow>
   conn' = conn \<and> x \<in> set valid"
  by (induction valid "(conn, script)" arbitrary: script rule: input_lower_until.induct)
     (auto split: if_splits)

lemma call_Inr_iff:
  "call r (conn, script) = (Inr x, conn', script') \<longleftrightarrow> r = Inr x \<and> conn' = conn \<and> script' = script"
  by (cases r) (auto simp: call_def raise_apply ret_apply)

lemma next_rowid_fresh: "i \<in> set ids \<Longrightarrow> i < next_rowid ids"
  by (induction ids) (auto simp: next_rowid_def)

lemma filter_distinct_key:
  "distinct (map f xs) \<Longrightarrow> x \<in> set xs \<Longrightarrow> filter (\<lambda>y. f y = f x) xs = [x]"
proof (induction xs)
  case Nil
  then show ?case by simp
next
  case (Cons a xs)
  show ?case
  proof (cases "a = x")
    case True
    with Cons.prems have "f x \<notin> f ` set xs" by simp
    then have "filter (\<lambda>y. f y = f x) xs = []"
      by (simp add: filter_empty_conv image_iff) metis
    with True show ?thesis by simp
  next
    case False
    with Cons.prems have "x \<in> set xs" "f a \<noteq> f x" by auto
    with Cons show ?thesis by simp
  qed
qed

text \<open>
  C8. In a store whose usernames are unique, as \<open>UNIQUE(username)\<close> keeps them, and
  which holds a user row with the username \<open>u\<close>: registering with the username \<open>u\<close>
  returns \<open>None\<close> (no user id) and leaves the store as it was, so no user row and no
  goal row is inserted, and exactly one user row has the username \<open>u\<close>.
\<close>

theorem register_duplicate_username:
  assumes unique: "distinct (map u_username (users db))"
    and present: "u \<in> set (users db)"
  shows "register pf db (Line (u_username u) # rest) = (Inr None, db) \<and>
         length (filter (\<lambda>r. u_username r = u_username u) (users db)) = 1"
proof -
  from present have "find (\<lambda>r. u_username r = u_username u) (users db) \<noteq> None"
    by (auto simp: find_None_iff)
  then have "register pf db (Line (u_username u) # rest) = (Inr None, db)"
    by (simp add: register_def register_body_def proc_eval cong: lazy_cong)
  moreover from filter_distinct_key [OF unique present]
  have "length (filter (\<lambda>r. u_username r = u_username u) (users db)) = 1"
    by simp
  ultimately show ?thesis by simp
qed

theorem register_duplicate_username_witness:
  "distinct (map u_username (users ann_store)) \<and> ann \<in> set (users ann_store) \<and>
   register example_float ann_store [Line ''ann'', Line ''secret'', Line ''41''] = (Inr None, ann_store) \<and>
   length (filter (\<lambda>r. u_username r = ''ann'') (users ann_store)) = 1"
proof -
  have u: "distinct (map u_username (users ann_store))" and p: "ann \<in> set (users ann_store)"
    by (simp_all add: ann_store_def empty_store_def)
  from register_duplicate_username [OF u p, of example_float "[Line ''secret'', Line ''41'']"] u p
  show ?thesis by (simp add: ann_def)
qed

lemma input_lower_until_conn:
  "input_lower_until valid (conn, script) = (Inr x, conn', script') \<Longrightarrow> conn' = conn"
  by (simp add: input_lower_until_Inr)

lemma register_body_Some:
  assumes "register_body pf (connect db, script) = (Inr (Some user_id), conn, rest)"
  obtains username password age gender weight height fitness_goal bmr goal where
    "find (\<lambda>u. u_username u = username) (users db) = None"
    "calculate_bmr gender weight height age = Inr bmr"
    "calculate_goal_calories bmr fitness_goal = Inr goal"
    "user_id = lastrowid_users
       (insert_user username password age gender weight height fitness_goal bmr db)"
    "pending conn = insert_calorie_goal user_id goal
       (insert_user username password age gender weight height fitness_goal bmr db)"
  using assms unfolding register_body_def
  apply (elim and_then_InrE)
  apply (simp add: query_apply ret_apply execute_apply call_Inr_iff connect_def
        split: if_splits)
  apply (elim and_then_InrE)
  apply (clarsimp simp: query_apply ret_apply execute_apply call_Inr_iff connect_def
        dest!: input_line_Inr float_input_Inr input_lower_until_conn)
  done

lemma register_accepted:
  assumes "register pf db script = (Inr (Some user_id), db')"
  obtains username password age gender weight height fitness_goal bmr goal where
    "find (\<lambda>u. u_username u = username) (users db) = None"
    "calculate_bmr gender weight height age = Inr bmr"
    "calculate_goal_calories bmr fitness_goal = Inr goal"
    "user_id = lastrowid_users
       (insert_user username password age gender weight height fitness_goal bmr db)"
    "db' = insert_calorie_goal user_id goal
       (insert_user username password age gender weight height fitness_goal bmr db)"
proof -
  from assms obtain conn rest where
    body: "register_body pf (connect db, script) = (Inr (Some user_id), conn, rest)" and
    db': "db' = pending conn"
    by (auto simp: register_def with_connect_def commit_def split: prod.splits sum.splits)
  from body show ?thesis
    by (rule register_body_Some) (rule that, simp_all add: db')
qed

text \<open>
  C10. A registration that returns a user id has appended exactly one user row, with that
  id and a username not present before, and exactly one goal row for that id: its daily
  calorie goal is \<open>calculate_goal_calories\<close> of the \<open>calculate_bmr\<close> of the row's
  gender, weight, height and age and of the row's fitness goal (the BMR minus 300 for
  lose, plus 300 for gain, the BMR otherwise), and its exercise name and four targets are
  unset. The other tables are untouched.
\<close>

theorem register_success:
  assumes "register pf db script = (Inr (Some user_id), db')"
  shows "\<exists>u bmr.
           users db' = users db @ [u] \<and> u_id u = user_id \<and>
           user_id \<notin> set (map u_id (users db)) \<and>
           u_username u \<notin> set (map u_username (users db)) \<and>
           calculate_bmr (u_gender u) (u_weight u) (u_height u) (u_age u) = Inr (Some bmr) \<and>
           u_bmr u = Some bmr \<and>
           calculate_goal_calories (Some bmr) (u_fitness_goal u) =
             Inr (if u_fitness_goal u = ''lose'' then bmr - 300
                  else if u_fitness_goal u = ''gain'' then bmr + 300 else bmr) \<and>
           goals db' = goals db @
             [\<lparr>g_user_id = user_id,
               g_daily_calorie_goal =
                 Some (if u_fitness_goal u = ''lose'' then bmr - 300
                       else if u_fitness_goal u = ''gain'' then bmr + 300 else bmr),
               g_exercise_name = None, g_target_reps = None, g_target_weight = None,
               g_target_duration = None, g_target_distance = None\<rparr>] \<and>
           exercises db' = exercises db \<and> routines db' = routines db \<and>
           other_exercises db' = other_exercises db"
proof -
  from assms obtain username password age gender weight height fitness_goal bmr goal where
    fresh: "find (\<lambda>u. u_username u = username) (users db) = None" and
    bmr: "calculate_bmr gender weight height age = Inr bmr" and
    goal: "calculate_goal_calories bmr fitness_goal = Inr goal" and
    uid: "user_id = lastrowid_users
       (insert_user username password age gender weight height fitness_goal bmr db)" and
    db': "db' = insert_calorie_goal user_id goal
       (insert_user username password age gender weight height fitness_goal bmr db)"
    by (rule register_accepted)
  from goal obtain b where b: "bmr = Some b"
    by (cases bmr) (simp_all add: calculate_goal_calories_def)
  define u where "u = \<lparr>u_id = user_id, u_username = username, u_password = password,
    u_age = age, u_gender = gender, u_weight = weight, u_height = height,
    u_fitness_goal = fitness_goal, u_bmr = Some b\<rparr>"
  from uid have id: "user_id = next_rowid (map u_id (users db))"
    by (simp add: lastrowid_users_def insert_user_def)
  have new_id: "user_id \<notin> set (map u_id (users db))"
    using next_rowid_fresh [of user_id "map u_id (users db)"] id by auto
  from fresh have new_name: "username \<notin> set (map u_username (users db))"
    by (auto simp: find_None_iff)
  from goal b have goal_value:
    "goal = (if fitness_goal = ''lose'' then b - 300
             else if fitness_goal = ''gain'' then b + 300 else b)"
    by (auto simp: calculate_goal_calories_def split: if_splits)
  have "users db' = users db @ [u]"
    by (simp add: db' insert_calorie_goal_def insert_user_def u_def id b)
  moreover have "goals db' = goals db @
      [\<lparr>g_user_id = user_id, g_daily_calorie_goal = Some goal, g_exercise_name = None,
        g_target_reps = None, g_target_weight = None, g_target_duration = None,
        g_target_distance = None\<rparr>]"
    by (simp add: db' insert_calorie_goal_def insert_user_def)
  moreover have "exercises db' = exercises db" "routines db' = routines db"
    "other_exercises db' = other_exercises db"
    by (simp_all add: db' insert_calorie_goal_def insert_user_def)
  moreover have "calculate_goal_calories (Some b) (u_fitness_goal u) = Inr goal"
    using goal b by (simp add: u_def)
  ultimately show ?thesis
    using new_id new_name bmr b goal_value
    by (intro exI [of _ u] exI [of _ b]) (simp add: u_def)
qed

lemma register_ben:
  "register example_float ann_store ben_script = (Inr (Some 2), ann_ben_store)"
  by (simp add: register_def register_body_def proc_eval float_input_def example_float_def
      digit_of_def lower_def lower_char_def calculate_bmr_def
      calculate_goal_calories_def insert_user_def lastrowid_users_def insert_calorie_goal_def
      next_rowid_def ann_store_def ann_def ben_def ben_script_def ann_ben_store_def
      ann_calorie_goal_def empty_store_def cong: lazy_cong)

theorem register_success_witness:
  "register example_float ann_store ben_script = (Inr (Some 2), ann_ben_store) \<and>
   (\<exists>u bmr.
           users ann_ben_store = users ann_store @ [u] \<and> u_id u = 2 \<and>
           2 \<notin> set (map u_id (users ann_store)) \<and>
           u_username u \<notin> set (map u_username (users ann_store)) \<and>
           calculate_bmr (u_gender u) (u_weight u) (u_height u) (u_age u) = Inr (Some bmr) \<and>
           u_bmr u = Some bmr \<and>
           calculate_goal_calories (Some bmr) (u_fitness_goal u) =
             Inr (if u_fitness_goal u = ''lose'' then bmr - 300
                  else if u_fitness_goal u = ''gain'' then bmr + 300 else bmr) \<and>
           goals ann_ben_store = goals ann_store @
             [\<lparr>g_user_id = 2,
               g_daily_calorie_goal =
                 Some (if u_fitness_goal u = ''lose'' then bmr - 300
                       else if u_fitness_goal u = ''gain'' then bmr + 300 else bmr),
               g_exercise_name = None, g_target_reps = None, g_target_weight = None,
               g_target_duration = None, g_target_distance = None\<rparr>] \<and>
           exercises ann_ben_store = exercises ann_store \<and> routines ann_ben_store = routines ann_store \<and>
           other_exercises ann_ben_store = other_exercises ann_store)"
  by (rule conjI [OF register_ben register_success [OF register_ben]])

subsection \<open>Registration leaves no partial row\<close>

lemma keeps_conn_raise: "keeps_conn (raise e)"
  by (simp add: keeps_conn_def raise_apply)

lemma keeps_conn_call: "keeps_conn (call r)"
  by (cases r) (simp_all add: call_def keeps_conn_raise keeps_conn_ret)

lemma keeps_conn_float_input: "keeps_conn (float_input pf)"
  unfolding float_input_def
  by (intro keeps_conn_and_then keeps_conn_input_line)
     (simp add: keeps_conn_raise keeps_conn_ret split: option.splits)

lemma keeps_conn_input_lower_until: "keeps_conn (input_lower_until valid)"
proof -
  have "conn' = conn" if "input_lower_until valid (conn, script) = (r, conn', script')"
    for conn script r conn' script'
    using that
    by (induction valid "(conn, script)" arbitrary: script rule: input_lower_until.induct)
       (auto split: if_splits)
  then show ?thesis unfolding keeps_conn_def by blast
qed

lemma keeps_disk_register_body: "keeps_disk (register_body pf)"
  unfolding register_body_def
  by (intro keeps_disk_and_then keeps_disk_if keeps_disk_execute keeps_conn_disk
      keeps_conn_input_line keeps_conn_query keeps_conn_float_input
      keeps_conn_input_lower_until keeps_conn_call keeps_conn_ret)

lemma register_body_None:
  assumes "register_body pf (connect db, script) = (Inr None, conn, rest)"
  shows "conn = connect db"
  using assms unfolding register_body_def
  apply (elim and_then_InrE)
  apply (simp add: query_apply ret_apply split: if_splits)
   apply (auto dest!: input_line_Inr)[1]
  apply (elim and_then_InrE)
  apply (simp add: ret_apply)
  done

lemma register_refused:
  assumes "register pf db script = (r, db')" and "\<And>user_id. r \<noteq> Inr (Some user_id)"
  shows "db' = db"
proof -
  obtain r0 conn rest where body: "register_body pf (connect db, script) = (r0, conn, rest)"
    by (cases "register_body pf (connect db, script)") auto
  from keeps_diskD [OF keeps_disk_register_body body] have disk: "disk conn = db"
    by (simp add: connect_def)
  show ?thesis
  proof (cases r0)
    case (Inl e)
    with body assms(1) disk show ?thesis
      by (simp add: register_def with_connect_def rollback_def)
  next
    case (Inr result)
    with body assms have "result = None"
      by (cases result) (auto simp: register_def with_connect_def)
    with body Inr have "conn = connect db" by (auto dest: register_body_None)
    with body Inr assms(1) show ?thesis
      by (simp add: register_def with_connect_def commit_def connect_def)
  qed
qed

lemma register_keeps_usernames_distinct:
  assumes "distinct (map u_username (users db))" and "register pf db script = (r, db')"
  shows "distinct (map u_username (users db'))"
proof (cases "\<exists>user_id. r = Inr (Some user_id)")
  case True
  then obtain user_id where "register pf db script = (Inr (Some user_id), db')"
    using assms(2) by auto
  then obtain username password age gender weight height fitness_goal bmr goal where
    fresh: "find (\<lambda>u. u_username u = username) (users db) = None" and
    db': "db' = insert_calorie_goal user_id goal
       (insert_user username password age gender weight height fitness_goal bmr db)"
    by (rule register_accepted)
  from fresh have "username \<notin> set (map u_username (users db))"
    by (auto simp: find_None_iff)
  with assms(1) show ?thesis
    by (simp add: db' insert_calorie_goal_def insert_user_def)
next
  case False
  with assms(2) have "db' = db" by (auto dest: register_refused)
  with assms(1) show ?thesis by simp
qed

subsection \<open>Routines are all or nothing\<close>

lemma keeps_conn_read_one_set:
  "keeps_conn (read_one_set pf user_id routine_name exercise_name set_number exercise_list)"
  unfolding read_one_set_def
  by (intro keeps_conn_and_then keeps_conn_get_float_input keeps_conn_ret)

lemma keeps_conn_read_sets:
  "keeps_conn (read_sets pf user_id routine_name exercise_name numbers exercise_list)"
  by (induction numbers arbitrary: exercise_list)
     (simp_all add: keeps_conn_ret keeps_conn_and_then keeps_conn_read_one_set)

lemma entry_loop_conn:
  "entry_loop pf user_id routine_name exercise_list (conn, script) = (r, conn', script') \<Longrightarrow>
   conn' = conn"
proof (induction pf user_id routine_name exercise_list "(conn, script)"
    arbitrary: conn script r conn' script' rule: entry_loop.induct)
  case (1 pf user_id routine_name exercise_list conn script)
  obtain r1 conn1 script1 where name: "input_line (conn, script) = (r1, conn1, script1)"
    by (cases "input_line (conn, script)") auto
  with keeps_conn_input_line have c1: "conn1 = conn" by (auto dest: keeps_connD)
  show ?case
  proof (cases r1)
    case (Inl e)
    with name "1.prems" c1 show ?thesis by simp
  next
    case (Inr exercise_name)
    note r1 = this
    show ?thesis
    proof (cases "lower exercise_name = ''end''")
      case True
      with name r1 "1.prems" c1 show ?thesis by simp
    next
      case False
      obtain r2 conn2 script2 where
        sets: "get_float_input pf (conn1, script1) = (r2, conn2, script2)"
        by (cases "get_float_input pf (conn1, script1)") auto
      with keeps_conn_get_float_input have c2: "conn2 = conn1" by (auto dest: keeps_connD)
      show ?thesis
      proof (cases r2)
        case (Inl e)
        with name r1 False sets "1.prems" c1 c2 show ?thesis by simp
      next
        case (Inr sets_value)
        note r2 = this
        let ?read = "if 0 < sets_value
          then read_sets pf user_id routine_name exercise_name
                 [1 ..< nat \<lfloor>sets_value\<rfloor> + 1] exercise_list
          else read_one_set pf user_id routine_name exercise_name 1 exercise_list"
        obtain r3 conn3 script3 where rows: "?read (conn2, script2) = (r3, conn3, script3)"
          by (cases "?read (conn2, script2)") auto
        have "keeps_conn ?read"
          by (simp add: keeps_conn_read_sets keeps_conn_read_one_set)
        with rows have c3: "conn3 = conn2" by (auto dest: keeps_connD)
        show ?thesis
        proof (cases r3)
          case (Inl e)
          with name r1 False sets r2 rows "1.prems" c1 c2 c3 show ?thesis by simp
        next
          case (Inr appended)
          with name r1 False sets r2 rows "1.prems"
          have "entry_loop pf user_id routine_name appended (conn3, script3) = (r, conn', script')"
            by simp
          from "1.hyps" [OF name [symmetric] r1 False _ r2 _ Inr this]
          have "conn' = conn3" using sets rows by simp
          with c1 c2 c3 show ?thesis by simp
        qed
      qed
    qed
  qed
qed

lemma keeps_conn_entry_loop: "keeps_conn (entry_loop pf user_id routine_name exercise_list)"
  unfolding keeps_conn_def using entry_loop_conn by blast

lemma commit_then_ret: "raises_before_commit (and_then conn_commit (\<lambda>_. ret x))"
  by (simp add: raises_before_commit_def and_then_apply conn_commit_apply ret_apply)

lemma create_routine_try_raises: "raises_before_commit (create_routine_try pf user_id)"
  unfolding create_routine_try_def
  by (intro raises_before_commit_and_then commit_then_ret keeps_disk_if keeps_disk_and_then
      keeps_disk_for_each keeps_disk_execute keeps_conn_disk keeps_conn_input_line
      keeps_conn_query keeps_conn_entry_loop keeps_conn_ret)

lemma create_routine_try_returns:
  "create_routine_try pf user_id s = (Inr outcome, s') \<Longrightarrow> outcome = RoutineCreated"
  unfolding create_routine_try_def
  by (elim and_then_InrE) (simp add: ret_apply)

lemma create_routine_unfinished:
  assumes "fst (create_routine pf user_id db script) \<noteq> Inr RoutineCreated"
  shows "snd (create_routine pf user_id db script) = db"
proof -
  obtain r0 conn0 script0 where
    body: "create_routine_try pf user_id (connect db, script) = (r0, conn0, script0)"
    by (cases "create_routine_try pf user_id (connect db, script)") auto
  show ?thesis
  proof (cases r0)
    case (Inl e)
    with body have "disk conn0 = disk (connect db)"
      using raises_before_commitD [OF create_routine_try_raises] by blast
    then have "disk conn0 = db" by (simp add: connect_def)
    with body Inl show ?thesis
      by (simp add: create_routine_def with_connect_def try_except_apply and_then_apply
          conn_rollback_apply ret_apply commit_def rollback_def)
  next
    case (Inr outcome)
    with body have "outcome = RoutineCreated" by (auto dest: create_routine_try_returns)
    with body Inr have "fst (create_routine pf user_id db script) = Inr RoutineCreated"
      by (simp add: create_routine_def with_connect_def try_except_apply)
    with assms show ?thesis by simp
  qed
qed

subsection \<open>A prompt interrupted\<close>

lemma interruptible_at_Inl:
  "interruptible_at m conn ls \<Longrightarrow> m (conn, map Line ls) = (Inl e, conn', script') \<Longrightarrow>
   e = EOFError \<and> m (conn, map Line ls @ CtrlC # rest) = (Inl KeyboardInterrupt, conn', rest)"
  unfolding interruptible_at_def by blast

lemma interruptible_at_Inr:
  assumes "interruptible_at m conn ls" and "m (conn, map Line ls) = (Inr x, conn', script')"
  obtains ls' where "script' = map Line ls'"
    "\<And>rest. m (conn, map Line ls @ CtrlC # rest) = (Inr x, conn', map Line ls' @ CtrlC # rest)"
  using assms unfolding interruptible_at_def by blast

lemma interruptibleD: "interruptible m \<Longrightarrow> interruptible_at m conn ls"
  by (simp add: interruptible_def)

lemma interruptible_at_and_then:
  assumes m: "interruptible_at m conn ls"
    and f: "\<And>x conn1 ls1. m (conn, map Line ls) = (Inr x, conn1, map Line ls1) \<Longrightarrow>
              interruptible_at (f x) conn1 ls1"
  shows "interruptible_at (and_then m f) conn ls"
proof -
  obtain r1 conn1 script1 where run: "m (conn, map Line ls) = (r1, conn1, script1)"
    by (cases "m (conn, map Line ls)") auto
  show ?thesis
  proof (cases r1)
    case (Inl e)
    from interruptible_at_Inl [OF m run [unfolded Inl]]
    have "e = EOFError"
      and "\<And>rest. m (conn, map Line ls @ CtrlC # rest) = (Inl KeyboardInterrupt, conn1, rest)"
      by auto
    with run Inl show ?thesis
      by (simp add: interruptible_at_def and_then_apply)
  next
    case (Inr x)
    from interruptible_at_Inr [OF m run [unfolded Inr]] obtain ls1 where
      script1: "script1 = map Line ls1" and
      ext: "\<And>rest. m (conn, map Line ls @ CtrlC # rest) =
              (Inr x, conn1, map Line ls1 @ CtrlC # rest)"
      by blast
    from f [OF run [unfolded Inr script1]] have "interruptible_at (f x) conn1 ls1" .
    with run Inr script1 ext show ?thesis
      by (simp add: interruptible_at_def and_then_apply)
  qed
qed

lemma interruptible_and_then:
  "interruptible m \<Longrightarrow> (\<And>x. interruptible (f x)) \<Longrightarrow> interruptible (and_then m f)"
  unfolding interruptible_def by (blast intro: interruptible_at_and_then)

lemma interruptible_ret: "interruptible (ret x)"
  by (auto simp: interruptible_def interruptible_at_def ret_apply)

lemma interruptible_query: "interruptible (query f)"
  by (auto simp: interruptible_def interruptible_at_def query_apply)

lemma interruptible_execute: "interruptible (execute f)"
  by (auto simp: interruptible_def interruptible_at_def execute_apply)

lemma interruptible_conn_commit: "interruptible conn_commit"
  by (auto simp: interruptible_def interruptible_at_def conn_commit_apply)

lemma interruptible_if:
  "interruptible a \<Longrightarrow> interruptible b \<Longrightarrow> interruptible (if c then a else b)"
  by simp

lemma interruptible_input_line: "interruptible input_line"
proof -
  have "interruptible_at input_line conn ls" for conn ls
    by (cases ls) (auto simp: interruptible_at_def)
  then show ?thesis by (simp add: interruptible_def)
qed

lemma interruptible_get_float_input: "interruptible (get_float_input pf)"
proof -
  have "interruptible_at (get_float_input pf) conn ls" for conn ls
  proof (induction ls)
    case Nil
    show ?case by (simp add: interruptible_at_def)
  next
    case (Cons l ls)
    show ?case
    proof (cases "pf l")
      case None
      with Cons show ?thesis by (simp add: interruptible_at_def)
    next
      case (Some x)
      then show ?thesis by (auto simp: interruptible_at_def)
    qed
  qed
  then show ?thesis by (simp add: interruptible_def)
qed

lemma interruptible_for_each:
  "(\<And>x. interruptible (f x)) \<Longrightarrow> interruptible (for_each xs f)"
  by (induction xs) (simp_all add: interruptible_ret interruptible_and_then)

lemma interruptible_read_one_set:
  "interruptible (read_one_set pf user_id routine_name exercise_name set_number exercise_list)"
  unfolding read_one_set_def
  by (intro interruptible_and_then interruptible_get_float_input interruptible_ret)

lemma interruptible_read_sets:
  "interruptible (read_sets pf user_id routine_name exercise_name numbers exercise_list)"
  by (induction numbers arbitrary: exercise_list)
     (simp_all add: interruptible_ret interruptible_and_then interruptible_read_one_set)

lemma entry_loop_unfold:
  "entry_loop pf user_id routine_name exercise_list =
     and_then input_line (\<lambda>exercise_name.
       if lower exercise_name = ''end'' then ret exercise_list
       else and_then (get_float_input pf) (\<lambda>sets.
              and_then (if sets > 0 then
                          read_sets pf user_id routine_name exercise_name
                            [1 ..< nat \<lfloor>sets\<rfloor> + 1] exercise_list
                        else
                          read_one_set pf user_id routine_name exercise_name 1 exercise_list)
                (\<lambda>appended. entry_loop pf user_id routine_name appended)))"
proof (rule ext)
  fix s :: "connection \<times> stdin_event list"
  obtain conn script where s: "s = (conn, script)" by (cases s)
  show "entry_loop pf user_id routine_name exercise_list s =
     and_then input_line (\<lambda>exercise_name.
       if lower exercise_name = ''end'' then ret exercise_list
       else and_then (get_float_input pf) (\<lambda>sets.
              and_then (if sets > 0 then
                          read_sets pf user_id routine_name exercise_name
                            [1 ..< nat \<lfloor>sets\<rfloor> + 1] exercise_list
                        else
                          read_one_set pf user_id routine_name exercise_name 1 exercise_list)
                (\<lambda>appended. entry_loop pf user_id routine_name appended))) s"
    unfolding s
    by (subst entry_loop.simps)
       (simp add: and_then_apply ret_apply split: prod.splits sum.splits
          del: entry_loop.simps)
qed

lemma entry_loop_interruptible_at:
  "script = map Line ls \<Longrightarrow>
   interruptible_at (entry_loop pf user_id routine_name exercise_list) conn ls"
proof (induction pf user_id routine_name exercise_list "(conn, script)"
    arbitrary: conn script ls rule: entry_loop.induct)
  case (1 pf user_id routine_name exercise_list conn script)
  note script = \<open>script = map Line ls\<close>
  show ?case
  proof (subst entry_loop_unfold, rule interruptible_at_and_then)
    show "interruptible_at input_line conn ls"
      by (rule interruptibleD [OF interruptible_input_line])
  next
    fix exercise_name conn1 ls1
    assume run1: "input_line (conn, map Line ls) = (Inr exercise_name, conn1, map Line ls1)"
    show "interruptible_at
            (if lower exercise_name = ''end'' then ret exercise_list
             else and_then (get_float_input pf) (\<lambda>sets.
                    and_then (if sets > 0 then
                                read_sets pf user_id routine_name exercise_name
                                  [1 ..< nat \<lfloor>sets\<rfloor> + 1] exercise_list
                              else
                                read_one_set pf user_id routine_name exercise_name 1 exercise_list)
                      (\<lambda>appended. entry_loop pf user_id routine_name appended)))
            conn1 ls1"
    proof (cases "lower exercise_name = ''end''")
      case True
      then show ?thesis by (simp add: interruptibleD [OF interruptible_ret])
    next
      case False
      have "interruptible_at
              (and_then (get_float_input pf) (\<lambda>sets.
                 and_then (if sets > 0 then
                             read_sets pf user_id routine_name exercise_name
                               [1 ..< nat \<lfloor>sets\<rfloor> + 1] exercise_list
                           else
                             read_one_set pf user_id routine_name exercise_name 1 exercise_list)
                   (\<lambda>appended. entry_loop pf user_id routine_name appended)))
              conn1 ls1"
      proof (rule interruptible_at_and_then)
        show "interruptible_at (get_float_input pf) conn1 ls1"
          by (rule interruptibleD [OF interruptible_get_float_input])
      next
        fix sets conn2 ls2
        assume run2: "get_float_input pf (conn1, map Line ls1) = (Inr sets, conn2, map Line ls2)"
        let ?read = "if sets > 0 then
                       read_sets pf user_id routine_name exercise_name
                         [1 ..< nat \<lfloor>sets\<rfloor> + 1] exercise_list
                     else
                       read_one_set pf user_id routine_name exercise_name 1 exercise_list"
        show "interruptible_at
                (and_then ?read (\<lambda>appended. entry_loop pf user_id routine_name appended))
                conn2 ls2"
        proof (rule interruptible_at_and_then)
          show "interruptible_at ?read conn2 ls2"
            by (simp add: interruptibleD [OF interruptible_read_sets]
                interruptibleD [OF interruptible_read_one_set])
        next
          fix appended conn3 ls3
          assume run3: "?read (conn2, map Line ls2) = (Inr appended, conn3, map Line ls3)"
          from run1 script
          have a: "(Inr exercise_name, conn1, map Line ls1) = input_line (conn, script)"
            by simp
          from run2
          have b: "(Inr sets, conn2, map Line ls2) = get_float_input pf (conn1, map Line ls1)"
            by simp
          from run3
          have c: "(Inr appended, conn3, map Line ls3) = ?read (conn2, map Line ls2)"
            by simp
          show "interruptible_at (entry_loop pf user_id routine_name appended) conn3 ls3"
            by (rule "1.hyps" [OF a refl False b refl c refl refl])
        qed
      qed
      with False show ?thesis by simp
    qed
  qed
qed

lemma interruptible_entry_loop:
  "interruptible (entry_loop pf user_id routine_name exercise_list)"
  by (simp add: interruptible_def entry_loop_interruptible_at)

lemma interruptible_create_routine_try: "interruptible (create_routine_try pf user_id)"
  unfolding create_routine_try_def
  by (intro interruptible_and_then interruptible_if interruptible_input_line
      interruptible_query interruptible_entry_loop interruptible_for_each
      interruptible_execute interruptible_conn_commit interruptible_ret)

text \<open>A script is typed lines only, or typed lines up to its first Ctrl-C.\<close>

lemma script_first_ctrl_c:
  "(\<exists>ls. script = map Line ls) \<or> (\<exists>ls rest. script = map Line ls @ CtrlC # rest)"
proof (induction script)
  case Nil
  have "[] = map Line []" by simp
  then show ?case by (intro disjI1 exI)
next
  case (Cons event script)
  show ?case
  proof (cases event)
    case CtrlC
    then have "event # script = map Line [] @ CtrlC # script" by simp
    then show ?thesis by (intro disjI2 exI)
  next
    case (Line l)
    from Cons.IH show ?thesis
    proof
      assume "\<exists>ls. script = map Line ls"
      then obtain ls where "script = map Line ls" ..
      with Line have "event # script = map Line (l # ls)" by simp
      then show ?thesis by (intro disjI1 exI)
    next
      assume "\<exists>ls rest. script = map Line ls @ CtrlC # rest"
      then obtain ls rest where "script = map Line ls @ CtrlC # rest" by blast
      with Line have "event # script = map Line (l # ls) @ CtrlC # rest" by simp
      then show ?thesis by (intro disjI2 exI)
    qed
  qed
qed

lemma create_routine_lines:
  "fst (create_routine pf user_id db (map Line ls)) = Inl EOFError \<or>
   fst (create_routine pf user_id db (map Line ls)) = Inr RoutineCreated"
proof -
  obtain r0 conn0 script0 where
    body: "create_routine_try pf user_id (connect db, map Line ls) = (r0, conn0, script0)"
    by (cases "create_routine_try pf user_id (connect db, map Line ls)") auto
  show ?thesis
  proof (cases r0)
    case (Inl e)
    from interruptible_at_Inl [OF interruptibleD [OF interruptible_create_routine_try]
        body [unfolded Inl]]
    have "e = EOFError" by simp
    with body Inl show ?thesis
      by (simp add: create_routine_def with_connect_def try_except_apply)
  next
    case (Inr outcome)
    with body have "outcome = RoutineCreated" by (auto dest: create_routine_try_returns)
    with body Inr show ?thesis
      by (simp add: create_routine_def with_connect_def try_except_apply)
  qed
qed

lemma create_routine_finished_before_ctrl_c:
  assumes "fst (create_routine pf user_id db (map Line ls)) = Inr RoutineCreated"
  shows "create_routine pf user_id db (map Line ls @ CtrlC # rest) =
         create_routine pf user_id db (map Line ls)"
proof -
  obtain r0 conn0 script0 where
    body: "create_routine_try pf user_id (connect db, map Line ls) = (r0, conn0, script0)"
    by (cases "create_routine_try pf user_id (connect db, map Line ls)") auto
  show ?thesis
  proof (cases r0)
    case (Inl e)
    from interruptible_at_Inl [OF interruptibleD [OF interruptible_create_routine_try]
        body [unfolded Inl]]
    have "e = EOFError" by simp
    with body Inl assms show ?thesis
      by (simp add: create_routine_def with_connect_def try_except_apply)
  next
    case (Inr outcome)
    from interruptible_at_Inr [OF interruptibleD [OF interruptible_create_routine_try]
        body [unfolded Inr]]
    obtain ls' where
      "create_routine_try pf user_id (connect db, map Line ls @ CtrlC # rest) =
         (Inr outcome, conn0, map Line ls' @ CtrlC # rest)"
      by blast
    with body Inr show ?thesis
      by (simp add: create_routine_def with_connect_def try_except_apply)
  qed
qed

text \<open>
  C7. Let the user type the lines \<open>ls\<close> and then press Ctrl-C, where \<open>ls\<close> leaves the
  entry unfinished: on \<open>ls\<close> alone \<open>create_routine\<close> is still waiting at a prompt (a
  closed terminal would make that prompt raise \<open>EOFError\<close>). Then, whatever follows the
  Ctrl-C, \<open>create_routine\<close> ends with "Operation aborted" and the store afterwards is
  the store before: none of the rows typed so far is in the routines table, also when the
  Ctrl-C comes at the last prompt, after the \<open>INSERT\<close>s and before the commit. Lines that do
  not leave the entry unfinished complete it (\<open>create_routine_lines\<close>), and then the
  Ctrl-C is never read (\<open>create_routine_finished_before_ctrl_c\<close>); every script with a
  Ctrl-C is such lines, the Ctrl-C and a rest (\<open>script_first_ctrl_c\<close>).
\<close>

theorem create_routine_ctrl_c:
  assumes "fst (create_routine pf user_id db (map Line ls)) = Inl EOFError"
  shows "create_routine pf user_id db (map Line ls @ CtrlC # rest) = (Inr OperationAborted, db)"
proof -
  obtain r0 conn0 script0 where
    body: "create_routine_try pf user_id (connect db, map Line ls) = (r0, conn0, script0)"
    by (cases "create_routine_try pf user_id (connect db, map Line ls)") auto
  from assms body have r0: "r0 = Inl EOFError"
    by (cases r0) (simp_all add: create_routine_def with_connect_def try_except_apply
        and_then_apply conn_rollback_apply ret_apply split: if_splits)
  from interruptible_at_Inl [OF interruptibleD [OF interruptible_create_routine_try]
      body [unfolded r0]]
  have ctrl_c: "create_routine_try pf user_id (connect db, map Line ls @ CtrlC # rest) =
                  (Inl KeyboardInterrupt, conn0, rest)"
    by simp
  from raises_before_commitD [OF create_routine_try_raises ctrl_c]
  have "disk conn0 = db" by (simp add: connect_def)
  with ctrl_c show ?thesis
    by (simp add: create_routine_def with_connect_def try_except_apply and_then_apply
        conn_rollback_apply ret_apply commit_def rollback_def)
qed

lemma create_routine_legs_waits:
  "fst (create_routine example_float 1 ann_store (map Line legs_lines)) = Inl EOFError"
  by (simp add: create_routine_def create_routine_try_def legs_lines_def proc_eval
      read_one_set_def routine_name_exists_def insert_routine_def example_float_def digit_of_def
      lower_def lower_char_def ann_store_def empty_store_def
      upt_rec [of "Suc _"] cong: lazy_cong)

lemma create_routine_half_set_waits:
  "fst (create_routine example_float 1 ann_store (map Line half_set_lines)) = Inl EOFError"
  by (simp add: create_routine_def create_routine_try_def half_set_lines_def proc_eval
      read_one_set_def routine_name_exists_def insert_routine_def example_float_def digit_of_def
      lower_def lower_char_def ann_store_def empty_store_def
      upt_rec [of "Suc _"] cong: lazy_cong)

theorem create_routine_ctrl_c_witness:
  "fst (create_routine example_float 1 ann_store (map Line legs_lines)) = Inl EOFError \<and>
   create_routine example_float 1 ann_store (map Line legs_lines @ CtrlC # []) =
     (Inr OperationAborted, ann_store) \<and>
   fst (create_routine example_float 1 ann_store (map Line half_set_lines)) = Inl EOFError \<and>
   create_routine example_float 1 ann_store
     (map Line half_set_lines @ CtrlC # [Line ''50'', Line ''0'', Line ''0'', Line ''end'', Line ''ok'']) =
     (Inr OperationAborted, ann_store)"
  using create_routine_ctrl_c [OF create_routine_legs_waits, of "[]"]
    create_routine_ctrl_c [OF create_routine_half_set_waits,
      of "[Line ''50'', Line ''0'', Line ''0'', Line ''end'', Line ''ok'']"]
    create_routine_legs_waits create_routine_half_set_waits
  by blast

end
